theory Spec2Isabelle
  imports Main "HOL-Library.Sublist" "HOL-Library.AList"
begin

section \<open>Values and exceptions of the Python program\<close>

text \<open>
  The program (\<^verbatim>\<open>code/rtr.py\<close>, class \<^verbatim>\<open>RTR\<close>) walks parsed JSON payloads. A payload
  is a Python value built from \<^verbatim>\<open>None\<close>, booleans, integers, strings, lists and
  dicts. A dict is an association list in insertion order; a lookup takes the first
  binding of a key. JSON numbers are modelled by the integers, strings by \<open>string\<close>
  (code points below 256).
\<close>

datatype json =
    JNull
  | JBool bool
  | JNum int
  | JStr string
  | JArr "json list"
  | JObj "(string \<times> json) list"

text \<open>
  Exceptions are values. \<open>KeyError k\<close> carries \<^verbatim>\<open>str(e)\<close>, the \<^verbatim>\<open>repr\<close> of the
  missing key. \<open>ConnectionError\<close> stands for an exception raised by the HTTP
  library, \<open>JSONDecodeError\<close> for a body that is not JSON, \<open>LibraryError\<close> for an
  exception raised inside \<^verbatim>\<open>urllib.parse\<close>.
\<close>

datatype error =
    KeyError string
  | TypeError
  | IndexError
  | AttributeError
  | JSONDecodeError
  | ConnectionError
  | LibraryError

fun bind_err :: "error + 'a \<Rightarrow> ('a \<Rightarrow> error + 'b) \<Rightarrow> error + 'b" where
  "bind_err (Inl e) f = Inl e"
| "bind_err (Inr x) f = f x"

subsection \<open>Operations on Python values\<close>

text \<open>Truth value of a payload, as \<^verbatim>\<open>if x:\<close> tests it.\<close>

fun truthy :: "json \<Rightarrow> bool" where
  "truthy JNull = False"
| "truthy (JBool b) = b"
| "truthy (JNum n) = (n \<noteq> 0)"
| "truthy (JStr s) = (s \<noteq> [])"
| "truthy (JArr xs) = (xs \<noteq> [])"
| "truthy (JObj kvs) = (kvs \<noteq> [])"

text \<open>\<^verbatim>\<open>x[k]\<close> for a string key \<open>k\<close>: only a dict can be indexed by a string.\<close>

fun getitem :: "json \<Rightarrow> string \<Rightarrow> error + json" where
  "getitem (JObj kvs) k =
     (case map_of kvs k of
        Some v \<Rightarrow> Inr v
      | None \<Rightarrow> Inl (KeyError ([CHR 0x27] @ k @ [CHR 0x27])))"
| "getitem x k = Inl TypeError"

text \<open>\<^verbatim>\<open>x[0]\<close>: the first element of a list or string; a dict parsed from JSON has
  no key \<^verbatim>\<open>0\<close>.\<close>

fun getitem0 :: "json \<Rightarrow> error + json" where
  "getitem0 (JArr []) = Inl IndexError"
| "getitem0 (JArr (x # xs)) = Inr x"
| "getitem0 (JStr []) = Inl IndexError"
| "getitem0 (JStr (c # cs)) = Inr (JStr [c])"
| "getitem0 (JObj kvs) = Inl (KeyError ''0'')"
| "getitem0 x = Inl TypeError"

text \<open>\<^verbatim>\<open>x.get(k, default)\<close>: only a dict has the method.\<close>

fun dict_get :: "json \<Rightarrow> string \<Rightarrow> json \<Rightarrow> error + json" where
  "dict_get (JObj kvs) k d = Inr (case map_of kvs k of Some v \<Rightarrow> v | None \<Rightarrow> d)"
| "dict_get x k d = Inl AttributeError"

fun is_substring :: "string \<Rightarrow> string \<Rightarrow> bool" where
  "is_substring needle [] = (needle = [])"
| "is_substring needle (c # cs) = (prefix needle (c # cs) \<or> is_substring needle cs)"

text \<open>\<^verbatim>\<open>k in x\<close> for a string \<open>k\<close>: key of a dict, element of a list, substring of a
  string; the other values are not iterable.\<close>

fun contains :: "string \<Rightarrow> json \<Rightarrow> error + bool" where
  "contains k (JObj kvs) = Inr (k \<in> set (map fst kvs))"
| "contains k (JArr xs) = Inr (JStr k \<in> set xs)"
| "contains k (JStr s) = Inr (is_substring k s)"
| "contains k x = Inl TypeError"

text \<open>\<^verbatim>\<open>for v in x\<close>: the elements of a list, the keys of a dict, the characters of a
  string.\<close>

fun iter :: "json \<Rightarrow> error + json list" where
  "iter (JArr xs) = Inr xs"
| "iter (JObj kvs) = Inr (map (\<lambda>kv. JStr (fst kv)) kvs)"
| "iter (JStr s) = Inr (map (\<lambda>c. JStr [c]) s)"
| "iter x = Inl TypeError"

text \<open>A value can be a dict key or a set element unless it is a list or a dict.\<close>

fun hashable :: "json \<Rightarrow> bool" where
  "hashable (JArr xs) = False"
| "hashable (JObj kvs) = False"
| "hashable x = True"

text \<open>As dict keys, \<^verbatim>\<open>True\<close> and \<^verbatim>\<open>1\<close> are the same key, and so are \<^verbatim>\<open>False\<close> and
  \<^verbatim>\<open>0\<close>.\<close>

fun key_norm :: "json \<Rightarrow> json" where
  "key_norm (JBool b) = JNum (if b then 1 else 0)"
| "key_norm x = x"

subsection \<open>Strings\<close>

text \<open>\<^verbatim>\<open>s.split(sep)\<close> for a non-empty separator: \<open>skip\<close> counts the characters of a
  matched separator still to pass over, \<open>acc\<close> holds the current piece reversed.\<close>

fun split_acc :: "string \<Rightarrow> nat \<Rightarrow> string \<Rightarrow> string \<Rightarrow> string list" where
  "split_acc sep skip acc [] = [rev acc]"
| "split_acc sep skip acc (c # cs) =
     (if 0 < skip then split_acc sep (skip - 1) acc cs
      else if prefix sep (c # cs) then rev acc # split_acc sep (length sep - 1) [] cs
      else split_acc sep 0 (c # acc) cs)"

definition py_split :: "string \<Rightarrow> string \<Rightarrow> string list" where
  "py_split sep s = split_acc sep 0 [] s"

text \<open>\<^verbatim>\<open>x.split(sep)\<close> on a payload: only a string has the method.\<close>

fun str_split :: "json \<Rightarrow> string \<Rightarrow> error + string list" where
  "str_split (JStr s) sep = Inr (py_split sep s)"
| "str_split x sep = Inl AttributeError"

text \<open>\<^verbatim>\<open>xs[-1]\<close>, \<^verbatim>\<open>xs[0]\<close> and \<^verbatim>\<open>xs[1]\<close> on a list.\<close>

fun last_item :: "'a list \<Rightarrow> error + 'a" where
  "last_item [] = Inl IndexError"
| "last_item xs = Inr (last xs)"

fun first_item :: "'a list \<Rightarrow> error + 'a" where
  "first_item [] = Inl IndexError"
| "first_item (x # xs) = Inr x"

fun second_item :: "'a list \<Rightarrow> error + 'a" where
  "second_item (x # y # ys) = Inr y"
| "second_item xs = Inl IndexError"

text \<open>\<^verbatim>\<open>s[-2:]\<close>, \<^verbatim>\<open>s.lstrip('0')\<close>, \<^verbatim>\<open>s.replace(" ", "_")\<close> and \<^verbatim>\<open>sep.join(xs)\<close>.\<close>

definition last_two :: "string \<Rightarrow> string" where
  "last_two s = drop (length s - 2) s"

definition lstrip_zero :: "string \<Rightarrow> string" where
  "lstrip_zero s = dropWhile (\<lambda>c. c = CHR ''0'') s"

definition replace_space :: "string \<Rightarrow> string" where
  "replace_space s = map (\<lambda>c. if c = CHR '' '' then CHR ''_'' else c) s"

fun join :: "string \<Rightarrow> string list \<Rightarrow> string" where
  "join sep [] = []"
| "join sep [x] = x"
| "join sep (x # y # ys) = x @ sep @ join sep (y # ys)"

text \<open>\<^verbatim>\<open>str(n)\<close> for a natural number and for an integer.\<close>

definition digit_char :: "nat \<Rightarrow> char" where
  "digit_char d = ''0123456789'' ! d"

function str_nat :: "nat \<Rightarrow> string" where
  "str_nat n = (if n < 10 then [digit_char n] else str_nat (n div 10) @ [digit_char (n mod 10)])"
  by pat_completeness auto
termination
  by (relation "measure id") auto

declare str_nat.simps [simp del]

definition str_int :: "int \<Rightarrow> string" where
  "str_int i = (if i < 0 then CHR ''-'' # str_nat (nat (- i)) else str_nat (nat i))"

text \<open>
  \<^verbatim>\<open>str(x)\<close> as an f-string renders a payload. Scalars are exact. A list or dict is
  rendered by \<^verbatim>\<open>repr\<close>; inside it a string is put between single quotes without the
  escapes Python adds for quotes, backslashes and control characters.
\<close>

fun py_repr :: "json \<Rightarrow> string" where
  "py_repr JNull = ''None''"
| "py_repr (JBool b) = (if b then ''True'' else ''False'')"
| "py_repr (JNum n) = str_int n"
| "py_repr (JStr s) = [CHR 0x27] @ s @ [CHR 0x27]"
| "py_repr (JArr xs) = ''['' @ join '', '' (map py_repr xs) @ '']''"
| "py_repr (JObj kvs) =
     ''{'' @ join '', '' (map (\<lambda>kv. [CHR 0x27] @ fst kv @ [CHR 0x27] @ '': '' @ py_repr (snd kv)) kvs) @ ''}''"

fun py_str :: "json \<Rightarrow> string" where
  "py_str (JStr s) = s"
| "py_str x = py_repr x"

section \<open>The outside world\<close>

text \<open>
  What \<^verbatim>\<open>requests\<close> hands back for one GET: the \<^verbatim>\<open>ok\<close> flag and the status code as
  the library reports them, the parsed body (\<open>None\<close> when \<^verbatim>\<open>response.json()\<close> raises)
  and the raw text.
\<close>

record response =
  ok :: bool
  status_code :: nat
  json_body :: "json option"
  body_text :: string

text \<open>
  The world is a parameter of every operation that leaves the process.
  \<open>net n url\<close> is the answer to the \<open>n\<close>-th GET of the run when it asks for \<open>url\<close>
  (an exception of the HTTP library is \<open>Inl\<close>), so the same address may answer
  differently at different times. \<open>url_query\<close> is \<^verbatim>\<open>urllib.parse.urlparse(url).query\<close>
  and \<open>parse_qs\<close> is \<^verbatim>\<open>urllib.parse.parse_qs\<close>; both are library code and may raise.
\<close>

record world =
  net :: "nat \<Rightarrow> string \<Rightarrow> error + response"
  url_query :: "json \<Rightarrow> error + string"
  parse_qs :: "string \<Rightarrow> error + (string \<times> string list) list"

text \<open>
  One entry of \<^verbatim>\<open>Vendor.urns\<close>, unpacked by the program as
  \<^verbatim>\<open>name, _, uri, _, activity_group, rule_reference, _\<close>. The class \<^verbatim>\<open>Vendor\<close> is
  not part of the source file; its entries are taken as seven strings.
\<close>

type_synonym activity = "string \<times> string \<times> string \<times> string \<times> string \<times> string \<times> string"

section \<open>The state of an \<^verbatim>\<open>RTR\<close> object\<close>

text \<open>
  The attributes of \<^verbatim>\<open>self\<close> the program reads and writes, and the sinks it feeds:
  \<open>request_count\<close> counts the GETs issued, \<open>stdout\<close> holds the printed lines,
  \<open>files\<close> the files written (path and content, in order), \<open>excel\<close> the rows
  handed to \<^verbatim>\<open>ExcelHandler.write_data_to_cells\<close>.
\<close>

record rtr =
  base_dir :: string
  base_url :: string
  args_date :: string
  args_sttr :: bool
  args_location :: bool
  urns :: "activity list"
  geo_variables :: "(string \<times> string) list"
  sttr_url_per_activity :: "(string \<times> json) list"
  werkingsgebied_per_activity :: "(json \<times> string list) list"
  request_count :: nat
  stdout :: "string list"
  files :: "(string \<times> string) list"
  excel :: "(nat \<times> json list) list"
  workbook_closed :: bool

definition session_get :: "world \<Rightarrow> rtr \<Rightarrow> string \<Rightarrow> error + (response \<times> rtr)" where
  "session_get w st url =
     (case net w (request_count st) url of
        Inl e \<Rightarrow> Inl e
      | Inr r \<Rightarrow> Inr (r, st\<lparr>request_count := Suc (request_count st)\<rparr>))"

definition response_json :: "response \<Rightarrow> error + json" where
  "response_json r = (case json_body r of None \<Rightarrow> Inl JSONDecodeError | Some j \<Rightarrow> Inr j)"

definition print :: "string \<Rightarrow> rtr \<Rightarrow> rtr" where
  "print line st = st\<lparr>stdout := stdout st @ [line]\<rparr>"

section \<open>The program\<close>

subsection \<open>Addresses and files\<close>

definition compose_base_url :: "string \<Rightarrow> string" where
  "compose_base_url env =
     ''https://service'' @ (if env = ''prod'' then [] else ''.pre'')
       @ ''.omgevingswet.overheid.nl/publiek/toepasbare-regels/api''"

definition compose_activity_url :: "rtr \<Rightarrow> string \<Rightarrow> string" where
  "compose_activity_url st uri =
     base_url st @ ''/rtrgegevens/v2/activiteiten/'' @ uri @ ''?datum='' @ args_date st"

definition compose_regel_beheer_object_url :: "rtr \<Rightarrow> json \<Rightarrow> string" where
  "compose_regel_beheer_object_url st functional_structure_reference =
     base_url st @ ''/toepasbareregelsuitvoerengegevens/v1/toepasbareRegels?functioneleStructuurRef=''
       @ py_str functional_structure_reference @ ''&datum='' @ args_date st"

text \<open>\<^verbatim>\<open>os.path.join\<close> on relative components.\<close>

definition create_file_path :: "rtr \<Rightarrow> string \<Rightarrow> string \<Rightarrow> string" where
  "create_file_path st directory filename = base_dir st @ ''/'' @ directory @ ''/'' @ filename"

definition render_entry :: "json \<times> string list \<Rightarrow> string" where
  "render_entry kv =
     py_str (fst kv) @ [CHR 0x0A] @ concat (map (\<lambda>v. [CHR 0x09] @ v @ [CHR 0x0A]) (snd kv)) @ [CHR 0x0A]"

definition write_to_file :: "rtr \<Rightarrow> string \<Rightarrow> (json \<times> string list) list \<Rightarrow> rtr" where
  "write_to_file st file_path data = st\<lparr>files := files st @ [(file_path, concat (map render_entry data))]\<rparr>"

subsection \<open>Locations\<close>

definition extract_activity_description :: "json \<Rightarrow> error + json" where
  "extract_activity_description json_data = dict_get json_data ''omschrijving'' (JStr ''No description'')"

fun identificaties :: "json list \<Rightarrow> error + json list" where
  "identificaties [] = Inr []"
| "identificaties (loc # locs) =
     (case getitem loc ''identificatie'' of
        Inl e \<Rightarrow> Inl e
      | Inr i \<Rightarrow> (case identificaties locs of Inl e \<Rightarrow> Inl e | Inr is \<Rightarrow> Inr (i # is)))"

definition extract_identifications :: "json \<Rightarrow> error + json list" where
  "extract_identifications json_data =
     bind_err (dict_get json_data ''locaties'' (JArr [])) (\<lambda>locaties.
     bind_err (iter locaties) identificaties)"

definition get_description :: "rtr \<Rightarrow> json \<Rightarrow> error + string" where
  "get_description st url =
     (if url = JStr ''nl.imow-ws0636.ambtsgebied.HDSR'' then Inr ''ambtsgebied HDSR''
      else
        bind_err (str_split url ''.'') (\<lambda>parts.
        bind_err (last_item parts) (\<lambda>segment.
          let index = last_two segment;
              clean_index = lstrip_zero index
          in Inr (case map_of (geo_variables st) clean_index of
                    Some name \<Rightarrow> name
                  | None \<Rightarrow> ''null: '' @ py_str url))))"

fun match_descriptions :: "rtr \<Rightarrow> json list \<Rightarrow> error + string list" where
  "match_descriptions st [] = Inr []"
| "match_descriptions st (url # urls) =
     (case get_description st url of
        Inl e \<Rightarrow> Inl e
      | Inr description \<Rightarrow>
          (case match_descriptions st urls of
             Inl e \<Rightarrow> Inl e
           | Inr matched \<Rightarrow> Inr (description # matched)))"

fun extend_entry :: "json \<Rightarrow> string list \<Rightarrow> (json \<times> string list) list \<Rightarrow> (json \<times> string list) list" where
  "extend_entry k vs [] = []"
| "extend_entry k vs (kv # rest) =
     (if key_norm (fst kv) = key_norm k then (fst kv, snd kv @ vs) # rest
      else kv # extend_entry k vs rest)"

definition update_activity_mapping :: "rtr \<Rightarrow> json \<Rightarrow> string list \<Rightarrow> error + rtr" where
  "update_activity_mapping st activity_description matched_descriptions =
     (if \<not> hashable activity_description then Inl TypeError
      else if key_norm activity_description \<in> set (map (\<lambda>kv. key_norm (fst kv)) (werkingsgebied_per_activity st))
      then Inr (st\<lparr>werkingsgebied_per_activity :=
                    extend_entry activity_description matched_descriptions (werkingsgebied_per_activity st)\<rparr>)
      else Inr (st\<lparr>werkingsgebied_per_activity :=
                    werkingsgebied_per_activity st @ [(activity_description, matched_descriptions)]\<rparr>))"

definition write_werkingsgebieden_to_file :: "rtr \<Rightarrow> rtr" where
  "write_werkingsgebieden_to_file st =
     (let file_path = create_file_path st ''log'' (''werkingsgebieden_'' @ args_date st @ ''.txt'')
      in write_to_file st file_path (werkingsgebied_per_activity st))"

definition update_werkingsgebied_per_activity :: "rtr \<Rightarrow> json \<Rightarrow> error + rtr" where
  "update_werkingsgebied_per_activity st json_data =
     (if args_location st then
        bind_err (extract_activity_description json_data) (\<lambda>activity_description.
        bind_err (extract_identifications json_data) (\<lambda>identifications.
        bind_err (match_descriptions st identifications) (\<lambda>matched_descriptions.
        bind_err (update_activity_mapping st activity_description matched_descriptions) (\<lambda>st1.
        Inr (write_werkingsgebieden_to_file st1)))))
      else Inr st)"

text \<open>The result is the parsed payload, or \<^verbatim>\<open>None\<close> (\<open>JNull\<close>) after a failed fetch.\<close>

definition get_activity_data :: "world \<Rightarrow> rtr \<Rightarrow> string \<Rightarrow> error + (json \<times> rtr)" where
  "get_activity_data w st uri =
     (let url = compose_activity_url st uri in
      bind_err (session_get w st url) (\<lambda>(response, st1).
        if ok response then
          bind_err (response_json response) (\<lambda>json_data.
          bind_err (update_werkingsgebied_per_activity st1 json_data) (\<lambda>st2.
          bind_err (response_json response) (\<lambda>result. Inr (result, st2))))
        else
          Inr (JNull, print (''Error fetching data for URI '' @ uri @ '': '' @ str_nat (status_code response)) st1)))"

subsection \<open>Work items\<close>

fun werkzaamheden_ids :: "json list \<Rightarrow> error + string list" where
  "werkzaamheden_ids [] = Inr []"
| "werkzaamheden_ids (werkzaamheid # rest) =
     (case bind_err (getitem werkzaamheid ''href'') (\<lambda>href.
           bind_err (str_split href ''/'') last_item) of
        Inl e \<Rightarrow> Inl e
      | Inr extracted_id \<Rightarrow>
          (case werkzaamheden_ids rest of
             Inl e \<Rightarrow> Inl e
           | Inr ids \<Rightarrow> Inr (extracted_id # ids)))"

definition extract_werkzaamheden :: "json \<Rightarrow> error + json list" where
  "extract_werkzaamheden data =
     bind_err (getitem data ''_links'') (\<lambda>links.
     bind_err (contains ''werkzaamheden'' links) (\<lambda>present.
     bind_err (if present then
                 bind_err (getitem links ''werkzaamheden'') (\<lambda>ws.
                 bind_err (iter ws) werkzaamheden_ids)
               else Inr []) (\<lambda>werkzaamheden_list.
     Inr (if werkzaamheden_list \<noteq> [] then [JStr (join '', '' werkzaamheden_list)] else [JStr []]))))"

subsection \<open>Rule-management objects\<close>

text \<open>\<^verbatim>\<open>extract_identifier\<close>: the self link
  \<^verbatim>\<open>data.get('_links', {}).get('self', {}).get('href', "")\<close>, the body of the \<^verbatim>\<open>try\<close>,
  then the function with its \<^verbatim>\<open>except Exception\<close>.\<close>

definition self_href :: "json \<Rightarrow> error + json" where
  "self_href data =
     bind_err (dict_get data ''_links'' (JObj [])) (\<lambda>links.
     bind_err (dict_get links ''self'' (JObj [])) (\<lambda>self.
     dict_get self ''href'' (JStr [])))"

definition extract_identifier_try :: "world \<Rightarrow> json \<Rightarrow> error + string" where
  "extract_identifier_try w data =
     bind_err (self_href data) (\<lambda>url.
     bind_err (url_query w url) (\<lambda>query.
     bind_err (parse_qs w query) (\<lambda>params.
     bind_err (first_item (case map_of params ''functioneleStructuurRef'' of
                             Some values \<Rightarrow> values
                           | None \<Rightarrow> [[]])) (\<lambda>functionele_structuur_ref.
     last_item (py_split ''/'' functionele_structuur_ref)))))"

definition extract_identifier :: "world \<Rightarrow> json \<Rightarrow> string" where
  "extract_identifier w data =
     (case extract_identifier_try w data of
        Inr identifier \<Rightarrow> identifier
      | Inl e \<Rightarrow> ''Unknown'')"

text \<open>The path
  \<^verbatim>\<open>data['_embedded']['toepasbareRegels'][0]['_links']['sttrBestand']['href']\<close>.\<close>

definition sttr_bestand_href :: "json \<Rightarrow> error + json" where
  "sttr_bestand_href data =
     bind_err (getitem data ''_embedded'') (\<lambda>embedded.
     bind_err (getitem embedded ''toepasbareRegels'') (\<lambda>rules.
     bind_err (getitem0 rules) (\<lambda>rule.
     bind_err (getitem rule ''_links'') (\<lambda>links.
     bind_err (getitem links ''sttrBestand'') (\<lambda>bestand.
     getitem bestand ''href'')))))"

text \<open>Assignment \<^verbatim>\<open>d[k] = v\<close> on a dict is \<open>AList.update\<close>: an existing key keeps
  its place, a new key goes to the end. Only \<^verbatim>\<open>KeyError\<close> is caught.\<close>

definition append_sttr_file :: "world \<Rightarrow> rtr \<Rightarrow> string \<Rightarrow> json \<Rightarrow> json \<Rightarrow> error + rtr" where
  "append_sttr_file w st urn_name regelbeheerobject_type data =
     (case sttr_bestand_href data of
        Inr sttr_bestand_href_value \<Rightarrow>
          (if regelbeheerobject_type \<noteq> JStr ''null'' then
             (case regelbeheerobject_type of
                JStr t \<Rightarrow>
                  (let regelbeheerobject_name = urn_name @ ''_'' @ replace_space t
                   in Inr (st\<lparr>sttr_url_per_activity :=
                               AList.update regelbeheerobject_name sttr_bestand_href_value
                                 (sttr_url_per_activity st)\<rparr>))
              | _ \<Rightarrow> Inl AttributeError)
           else Inr st)
      | Inl (KeyError k) \<Rightarrow>
          (let identifier = extract_identifier w data
           in Inr (print (''Data missing key: '' @ [CHR 0x27] @ k @ [CHR 0x27]
                            @ ''. Regelbeheerobject: '' @ identifier) st))
      | Inl e \<Rightarrow> Inl e)"

definition get_last_change_date :: "json \<Rightarrow> error + json" where
  "get_last_change_date data =
     bind_err (dict_get data ''_embedded'' (JObj [])) (\<lambda>embedded.
     bind_err (dict_get embedded ''toepasbareRegels'' (JArr [])) (\<lambda>applicable_rules.
       if truthy applicable_rules then
         bind_err (getitem0 applicable_rules) (\<lambda>rule.
         dict_get rule ''laatsteWijzigingDatum'' (JStr []))
       else Inr (JStr [])))"

text \<open>The function has no \<^verbatim>\<open>return\<close> for a response that is not \<^verbatim>\<open>ok\<close>: it
  returns \<^verbatim>\<open>None\<close>.\<close>

definition get_regelbeheerobject ::
  "world \<Rightarrow> rtr \<Rightarrow> string \<Rightarrow> json \<Rightarrow> json \<Rightarrow> error + (json \<times> rtr)" where
  "get_regelbeheerobject w st urn_name object_type functional_structure_reference =
     (let url = compose_regel_beheer_object_url st functional_structure_reference in
      bind_err (session_get w st url) (\<lambda>(response, st1).
        if ok response then
          bind_err (response_json response) (\<lambda>data.
          bind_err (append_sttr_file w st1 urn_name object_type data) (\<lambda>st2.
          bind_err (get_last_change_date data) (\<lambda>last_changed.
          Inr (last_changed, st2))))
        else Inr (JNull, st1)))"

text \<open>Lines 130 to 132 of \<^verbatim>\<open>process_individual_object\<close>: the effective type.\<close>

definition effective_type :: "json \<Rightarrow> error + json" where
  "effective_type obj =
     bind_err (getitem obj ''typering'') (\<lambda>object_type.
       if object_type = JStr ''Indieningsvereisten'' then
         bind_err (getitem obj ''toestemming'') (\<lambda>toestemming. getitem toestemming ''waarde'')
       else Inr object_type)"

definition process_individual_object ::
  "world \<Rightarrow> rtr \<Rightarrow> string \<Rightarrow> json \<Rightarrow> error + ((json \<times> json) \<times> rtr)" where
  "process_individual_object w st urn_name obj =
     bind_err (effective_type obj) (\<lambda>object_type.
     bind_err (getitem obj ''functioneleStructuurRef'') (\<lambda>functional_structure_reference.
     bind_err (get_regelbeheerobject w st urn_name object_type functional_structure_reference)
       (\<lambda>(last_changed, st1). Inr ((object_type, last_changed), st1))))"

definition categories :: "string list" where
  "categories = [''Conclusie'', ''Melding'', ''Aanvraag vergunning'', ''Informatie'']"

text \<open>\<^verbatim>\<open>xs.index(x)\<close> for an element that occurs.\<close>

fun index_of :: "'a list \<Rightarrow> 'a \<Rightarrow> nat" where
  "index_of [] x = 0"
| "index_of (y # ys) x = (if y = x then 0 else Suc (index_of ys x))"

text \<open>The membership test \<^verbatim>\<open>object_type in {...}\<close> hashes \<open>object_type\<close>, then the
  index is looked up in the list of the four names.\<close>

definition category_index :: "json \<Rightarrow> error + nat option" where
  "category_index object_type =
     (if \<not> hashable object_type then Inl TypeError
      else case object_type of
             JStr s \<Rightarrow> Inr (if s \<in> set categories then Some (index_of categories s) else None)
           | _ \<Rightarrow> Inr None)"

text \<open>The body of the loop of \<^verbatim>\<open>fetch_and_process_changes\<close>, and the loop.\<close>

definition changes_step ::
  "world \<Rightarrow> rtr \<Rightarrow> string \<Rightarrow> json list \<Rightarrow> json \<Rightarrow> error + (json list \<times> rtr)" where
  "changes_step w st urn_name changes obj =
     bind_err (process_individual_object w st urn_name obj) (\<lambda>((object_type, last_changed), st1).
     bind_err (category_index object_type) (\<lambda>slot.
       case slot of
         Some index \<Rightarrow> Inr (changes[index := last_changed], st1)
       | None \<Rightarrow> Inr (changes, st1)))"

fun changes_loop ::
  "world \<Rightarrow> rtr \<Rightarrow> string \<Rightarrow> json list \<Rightarrow> json list \<Rightarrow> error + (json list \<times> rtr)" where
  "changes_loop w st urn_name changes [] = Inr (changes, st)"
| "changes_loop w st urn_name changes (obj # objs) =
     (case changes_step w st urn_name changes obj of
        Inl e \<Rightarrow> Inl e
      | Inr (changes1, st1) \<Rightarrow> changes_loop w st1 urn_name changes1 objs)"

definition fetch_and_process_changes :: "world \<Rightarrow> rtr \<Rightarrow> json \<Rightarrow> error + (json list \<times> rtr)" where
  "fetch_and_process_changes w st data =
     bind_err (getitem data ''urn'') (\<lambda>urn.
     bind_err (str_split urn ''.'') (\<lambda>parts.
     bind_err (last_item parts) (\<lambda>urn_name.
       let changes = [JStr [], JStr [], JStr [], JStr []] in
       bind_err (contains ''regelBeheerObjecten'' data) (\<lambda>present.
         if present then
           bind_err (getitem data ''regelBeheerObjecten'') (\<lambda>objects.
           bind_err (iter objects) (\<lambda>objs.
           changes_loop w st urn_name changes objs))
         else Inr (changes, st)))))"

subsection \<open>Activities\<close>

definition archive_activity_data ::
  "world \<Rightarrow> rtr \<Rightarrow> nat \<Rightarrow> string \<Rightarrow> string \<Rightarrow> string \<Rightarrow> string \<Rightarrow> json \<Rightarrow> error + rtr" where
  "archive_activity_data w st row name uri activity_group rule_reference data =
     bind_err (extract_werkzaamheden data) (\<lambda>werkzaamheden.
     bind_err (fetch_and_process_changes w st data) (\<lambda>(changes, st1).
       let data_to_write =
             [JStr name, JStr uri, JStr activity_group, JStr rule_reference] @ werkzaamheden @ changes
       in Inr (st1\<lparr>excel := excel st1 @ [(row, data_to_write)]\<rparr>)))"

fun process_activity :: "world \<Rightarrow> rtr \<Rightarrow> activity \<Rightarrow> nat \<Rightarrow> error + rtr" where
  "process_activity w st (name, u1, uri, u2, activity_group, rule_reference, u3) row =
     bind_err (get_activity_data w st uri) (\<lambda>(response_json, st1).
       if truthy response_json then
         archive_activity_data w st1 row name uri activity_group rule_reference response_json
       else Inr st1)"

subsection \<open>The archival pass and the run\<close>

definition archive_sttr_file :: "world \<Rightarrow> rtr \<Rightarrow> string \<times> json \<Rightarrow> error + rtr" where
  "archive_sttr_file w st entry =
     (let key = fst entry; url = snd entry in
      bind_err (str_split url ''/toepasbareRegels/'') (\<lambda>parts.
      bind_err (second_item parts) (\<lambda>tail_part.
      bind_err (first_item (py_split ''/'' tail_part)) (\<lambda>identifier.
      bind_err (session_get w st (py_str url)) (\<lambda>(response, st1).
        if status_code response = 200 then
          (let file_path = create_file_path st1 ''log/STTR_RegelBeheerObjecten''
                             (''STTR_'' @ identifier @ ''_'' @ key @ ''.xml'')
           in Inr (write_to_file st1 file_path [(JStr key, [body_text response])]))
        else
          Inr (print (''Failed to download data from '' @ py_str url @ '', status code: ''
                        @ str_nat (status_code response)) st1))))))"

fun archive_sttr_loop :: "world \<Rightarrow> rtr \<Rightarrow> (string \<times> json) list \<Rightarrow> error + rtr" where
  "archive_sttr_loop w st [] = Inr st"
| "archive_sttr_loop w st (entry # entries) =
     (case archive_sttr_file w st entry of
        Inl e \<Rightarrow> Inl e
      | Inr st1 \<Rightarrow> archive_sttr_loop w st1 entries)"

definition archive_sttr_files :: "world \<Rightarrow> rtr \<Rightarrow> error + rtr" where
  "archive_sttr_files w st = archive_sttr_loop w st (sttr_url_per_activity st)"

fun activities_loop :: "world \<Rightarrow> rtr \<Rightarrow> nat \<Rightarrow> activity list \<Rightarrow> error + rtr" where
  "activities_loop w st row [] = Inr st"
| "activities_loop w st row (activity # rest) =
     (case process_activity w st activity row of
        Inl e \<Rightarrow> Inl e
      | Inr st1 \<Rightarrow> activities_loop w st1 (Suc row) rest)"

definition archive_activities :: "world \<Rightarrow> rtr \<Rightarrow> error + rtr" where
  "archive_activities w st =
     bind_err (activities_loop w st 2 (urns st)) (\<lambda>st1.
     bind_err (if args_sttr st1 then archive_sttr_files w st1 else Inr st1) (\<lambda>st2.
     Inr (st2\<lparr>workbook_closed := True\<rparr>)))"

section \<open>The specification's wording and example data\<close>

text \<open>
  The key of the geo lookup in the words of the specification: the final dot-delimited
  segment of the identifier, its last two characters, leading zeros stripped.
\<close>

definition spec_final_segment :: "string \<Rightarrow> string" where
  "spec_final_segment s = rev (takeWhile (\<lambda>c. c \<noteq> CHR ''.'') (rev s))"

definition spec_geo_key :: "string \<Rightarrow> string" where
  "spec_geo_key s = dropWhile (\<lambda>c. c = CHR ''0'') (rev (take 2 (rev (spec_final_segment s))))"

text \<open>A state at the start of a run, used for the concrete instances below.\<close>

definition example_rtr :: rtr where
  "example_rtr =
     \<lparr>base_dir = ''/srv/rtr'', base_url = compose_base_url ''prod'', args_date = ''01-01-2024'',
      args_sttr = False, args_location = False, urns = [],
      geo_variables = [(''7'', ''Polder X'')],
      sttr_url_per_activity = [], werkingsgebied_per_activity = [],
      request_count = 0, stdout = [], files = [], excel = [], workbook_closed = False\<rparr>"

text \<open>
  The two \<^verbatim>\<open>urllib.parse\<close> calls for the concrete instances below. On a plain string
  (letters, digits and the characters \<^verbatim>\<open>-._~:/?=&\<close> only; so no fragment, bracket,
  percent escape, plus sign, semicolon, blank or control character) the query is the text
  after the first question mark; its fields are separated by ampersands, a field is
  \<^verbatim>\<open>name=value\<close> split at the first equals sign, and a field without an equals sign or
  without a value is dropped. \<^verbatim>\<open>urlparse\<close> turns a value that is not a string into the
  empty address when it is falsy and raises \<^verbatim>\<open>AttributeError\<close> (no \<^verbatim>\<open>decode\<close>) when
  it is not. For every other string nothing is said: the result is left unspecified.
\<close>

definition plain_char :: "char \<Rightarrow> bool" where
  "plain_char c \<longleftrightarrow>
     c \<in> set ''abcdefghijklmnopqrstuvwxyzABCDEFGHIJKLMNOPQRSTUVWXYZ0123456789-._~:/?=&''"

fun plain_url_query :: "json \<Rightarrow> error + string" where
  "plain_url_query (JStr s) =
     (if list_all plain_char s
      then Inr (case dropWhile (\<lambda>c. c \<noteq> CHR ''?'') s of [] \<Rightarrow> [] | q # rest \<Rightarrow> rest)
      else undefined)"
| "plain_url_query x = (if truthy x then Inl AttributeError else Inr [])"

definition add_field :: "(string \<times> string list) list \<Rightarrow> string \<Rightarrow> (string \<times> string list) list" where
  "add_field params field =
     (let name = takeWhile (\<lambda>c. c \<noteq> CHR ''='') field;
          rest = dropWhile (\<lambda>c. c \<noteq> CHR ''='') field
      in if rest = [] \<or> tl rest = [] then params
         else AList.update name
                ((case map_of params name of Some vs \<Rightarrow> vs | None \<Rightarrow> []) @ [tl rest]) params)"

definition plain_parse_qs :: "string \<Rightarrow> error + (string \<times> string list) list" where
  "plain_parse_qs query =
     (if list_all plain_char query then Inr (foldl add_field [] (py_split ''&'' query))
      else undefined)"

definition example_world :: "(nat \<Rightarrow> string \<Rightarrow> error + response) \<Rightarrow> world" where
  "example_world n = \<lparr>net = n, url_query = plain_url_query, parse_qs = plain_parse_qs\<rparr>"

text \<open>Responses: a server error, and an applicable-rule record with a date and a
  document reference.\<close>

definition failed_response :: response where
  "failed_response = \<lparr>ok = False, status_code = 500, json_body = None, body_text = []\<rparr>"

definition rule_record :: "string \<Rightarrow> json" where
  "rule_record d =
     JObj [(''_embedded'', JObj [(''toepasbareRegels'',
        JArr [JObj [(''laatsteWijzigingDatum'', JStr d),
                    (''_links'', JObj [(''sttrBestand'',
                       JObj [(''href'', JStr ''https://h/toepasbareRegels/r1/sttr'')])])]])])]"

definition rule_response :: "string \<Rightarrow> response" where
  "rule_response d = \<lparr>ok = True, status_code = 200, json_body = Some (rule_record d), body_text = []\<rparr>"

definition net_fail :: "nat \<Rightarrow> string \<Rightarrow> error + response" where
  "net_fail n url = Inr failed_response"

definition net_dates :: "nat \<Rightarrow> string \<Rightarrow> error + response" where
  "net_dates n url = Inr (rule_response (if n = 0 then ''2024-01-01'' else ''2024-02-02''))"

text \<open>Rule-management objects.\<close>

definition permit_object :: json where
  "permit_object =
     JObj [(''typering'', JStr ''Indieningsvereisten''),
           (''toestemming'', JObj [(''waarde'', JStr ''Conclusie'')]),
           (''functioneleStructuurRef'', JStr ''r0'')]"

definition melding_object :: json where
  "melding_object = JObj [(''typering'', JStr ''Melding''), (''functioneleStructuurRef'', JStr ''r1'')]"

definition informatie_object :: "string \<Rightarrow> json" where
  "informatie_object ref = JObj [(''typering'', JStr ''Informatie''), (''functioneleStructuurRef'', JStr ref)]"


text \<open>
  The part of the state the processing of rule-management objects may change: the
  request counter, the document archive index and the printed lines.
\<close>

definition objects_frame :: "rtr \<Rightarrow> rtr \<Rightarrow> bool" where
  "objects_frame st st' \<longleftrightarrow>
     st' = st\<lparr>sttr_url_per_activity := sttr_url_per_activity st',
              request_count := request_count st', stdout := stdout st'\<rparr>"


definition twice_informatie :: json where
  "twice_informatie =
     JObj [(''urn'', JStr ''a.b''), (''_links'', JObj []),
           (''regelBeheerObjecten'', JArr [informatie_object ''r1'', informatie_object ''r2''])]"

text \<open>A network that answers the first GET with an activity payload and every later
  one with an applicable-rule record.\<close>

definition activity_response :: "json \<Rightarrow> response" where
  "activity_response j = \<lparr>ok = True, status_code = 200, json_body = Some j, body_text = []\<rparr>"

definition net_activity :: "json \<Rightarrow> nat \<Rightarrow> string \<Rightarrow> error + response" where
  "net_activity j n url = Inr (if n = 0 then activity_response j else rule_response ''2024-02-02'')"

text \<open>The part of the state the location step owns: the flag, the location map and
  the files written.\<close>

definition location_side :: "bool \<Rightarrow> (json \<times> string list) list \<Rightarrow> (string \<times> string) list \<Rightarrow> rtr \<Rightarrow> rtr" where
  "location_side b wg fs st = st\<lparr>args_location := b, werkingsgebied_per_activity := wg, files := fs\<rparr>"

text \<open>An activity with a description and one location, and an entry of the activity
  list.\<close>

definition located_activity :: json where
  "located_activity =
     JObj [(''urn'', JStr ''a.b''), (''_links'', JObj []), (''omschrijving'', JStr ''Kappen''),
           (''locaties'', JArr [JObj [(''identificatie'', JStr ''nl.imow-ws0636.gebied.007'')]])]"

definition example_activity :: activity where
  "example_activity = (''n'', ''x'', ''u'', ''x'', ''g'', ''r'', ''x'')"

text \<open>A network whose second answer is a server error, and an activity with two objects
  of the type \<^verbatim>\<open>Melding\<close>.\<close>

definition net_then_fail :: "nat \<Rightarrow> string \<Rightarrow> error + response" where
  "net_then_fail n url = Inr (if n = 0 then rule_response ''2024-01-01'' else failed_response)"

definition melding_object_2 :: json where
  "melding_object_2 = JObj [(''typering'', JStr ''Melding''), (''functioneleStructuurRef'', JStr ''r2'')]"

definition twice_melding :: json where
  "twice_melding =
     JObj [(''urn'', JStr ''a.b''), (''_links'', JObj []),
           (''regelBeheerObjecten'', JArr [melding_object, melding_object_2])]"

text \<open>An applicable-rule record whose list of rules is empty, and a network whose
  second answer is that record.\<close>

definition empty_rules_record :: json where
  "empty_rules_record = JObj [(''_embedded'', JObj [(''toepasbareRegels'', JArr [])])]"

definition empty_rules_response :: response where
  "empty_rules_response =
     \<lparr>ok = True, status_code = 200, json_body = Some empty_rules_record, body_text = []\<rparr>"

definition net_then_empty :: "nat \<Rightarrow> string \<Rightarrow> error + response" where
  "net_then_empty n url = Inr (if n = 0 then rule_response ''2024-01-01'' else empty_rules_response)"






section \<open>Strings and lists\<close>

lemma split_acc_nonempty: "split_acc sep k acc s \<noteq> []"
  by (induction s arbitrary: k acc) auto

lemma py_split_nonempty: "py_split sep s \<noteq> []"
  by (simp add: py_split_def split_acc_nonempty)

lemma last_item_py_split: "last_item (py_split sep s) = Inr (last (py_split sep s))"
  by (cases "py_split sep s") (simp_all add: py_split_nonempty)

lemma last_split_acc_char:
  "last (split_acc [c] 0 acc s) =
     (if c \<in> set s then rev (takeWhile (\<lambda>x. x \<noteq> c) (rev s)) else rev acc @ s)"
proof (induction s arbitrary: acc)
  case Nil
  show ?case by simp
next
  case (Cons x xs)
  show ?case
  proof (cases "x = c")
    case True
    then show ?thesis
      using Cons.IH [of "[]"] by (simp add: split_acc_nonempty takeWhile_append)
  next
    case False
    then show ?thesis
      using Cons.IH [of "x # acc"] by (auto simp add: takeWhile_append)
  qed
qed

lemma last_py_split_dot: "last (py_split ''.'' s) = spec_final_segment s"
proof (cases "CHR ''.'' \<in> set s")
  case True
  then show ?thesis
    by (simp add: py_split_def last_split_acc_char spec_final_segment_def)
next
  case False
  then have tw: "takeWhile (\<lambda>c. c \<noteq> CHR ''.'') (rev s) = rev s"
    by (simp add: takeWhile_eq_all_conv) metis
  from False show ?thesis
    by (simp add: py_split_def last_split_acc_char spec_final_segment_def tw)
qed

lemma last_two_rev: "last_two s = rev (take 2 (rev s))"
  by (simp add: last_two_def take_rev)

section \<open>The geo resolver\<close>

text \<open>
  C6. For every identifier string: the sentinel \<^verbatim>\<open>nl.imow-ws0636.ambtsgebied.HDSR\<close>
  resolves to \<^verbatim>\<open>ambtsgebied HDSR\<close> whatever the table holds; any other identifier is
  looked up under the key made of the last two characters of its final dot-delimited
  segment without leading zeros, and a key the table does not hold gives
  \<^verbatim>\<open>null: <identifier>\<close>. The result is always a value, never an exception.
\<close>

theorem get_description_resolves:
  "get_description st (JStr s) =
     Inr (if s = ''nl.imow-ws0636.ambtsgebied.HDSR'' then ''ambtsgebied HDSR''
          else case map_of (geo_variables st) (spec_geo_key s) of
                 Some name \<Rightarrow> name
               | None \<Rightarrow> ''null: '' @ s)"
  by (simp add: get_description_def last_item_py_split last_py_split_dot
      spec_geo_key_def last_two_rev lstrip_zero_def split: option.splits)

theorem get_description_resolves_witness:
  "get_description example_rtr (JStr ''nl.imow-ws0636.gebied.007'') = Inr ''Polder X''
   \<and> get_description (example_rtr\<lparr>geo_variables := []\<rparr>) (JStr ''nl.imow-ws0636.gebied.007'')
       = Inr ''null: nl.imow-ws0636.gebied.007''
   \<and> get_description (example_rtr\<lparr>geo_variables := []\<rparr>) (JStr ''nl.imow-ws0636.ambtsgebied.HDSR'')
       = Inr ''ambtsgebied HDSR''"
  using get_description_resolves [of example_rtr "''nl.imow-ws0636.gebied.007''"]
    get_description_resolves [of "example_rtr\<lparr>geo_variables := []\<rparr>" "''nl.imow-ws0636.gebied.007''"]
    get_description_resolves [of "example_rtr\<lparr>geo_variables := []\<rparr>" "''nl.imow-ws0636.ambtsgebied.HDSR''"]
  by (simp add: spec_geo_key_def spec_final_segment_def example_rtr_def)

section \<open>Classification of rule-management objects\<close>

lemma bind_err_eq_Inr: "bind_err m f = Inr y \<longleftrightarrow> (\<exists>x. m = Inr x \<and> f x = Inr y)"
  by (cases m) simp_all

lemma permit_object_fetch:
  "get_regelbeheerobject (example_world net_dates) example_rtr ''b'' (JStr ''Conclusie'') (JStr ''r0'')
     = Inr (JStr ''2024-01-01'',
            example_rtr\<lparr>sttr_url_per_activity := [(''b_Conclusie'', JStr ''https://h/toepasbareRegels/r1/sttr'')],
                        request_count := 1\<rparr>)"
  by code_simp

lemma melding_object_fetch:
  "get_regelbeheerobject (example_world net_dates) example_rtr ''b'' (JStr ''Melding'') (JStr ''r1'')
     = Inr (JStr ''2024-01-01'',
            example_rtr\<lparr>sttr_url_per_activity := [(''b_Melding'', JStr ''https://h/toepasbareRegels/r1/sttr'')],
                        request_count := 1\<rparr>)"
  by code_simp

text \<open>
  C4. For an object with a raw type: when the raw type is \<^verbatim>\<open>Indieningsvereisten\<close>,
  \<^verbatim>\<open>process_individual_object\<close> returns as type the value under \<^verbatim>\<open>toestemming\<close>,
  \<^verbatim>\<open>waarde\<close>; for any other raw type it returns the raw type, and the nested field is
  not read: two objects with the same raw type and the same reference are processed alike
  whatever else they hold. Conversely, every type the function returns is the nested
  value or the raw type, by the same rule, and the fetch was made for that type.
\<close>

theorem process_individual_object_category:
  assumes raw: "getitem obj ''typering'' = Inr raw"
  shows "(raw = JStr ''Indieningsvereisten'' \<longrightarrow>
            (\<forall>t v f d st'. getitem obj ''toestemming'' = Inr t \<and> getitem t ''waarde'' = Inr v
                \<and> getitem obj ''functioneleStructuurRef'' = Inr f
                \<and> get_regelbeheerobject w st urn v f = Inr (d, st') \<longrightarrow>
              process_individual_object w st urn obj = Inr ((v, d), st')))
       \<and> (raw \<noteq> JStr ''Indieningsvereisten'' \<longrightarrow>
            (\<forall>f d st'. getitem obj ''functioneleStructuurRef'' = Inr f
                \<and> get_regelbeheerobject w st urn raw f = Inr (d, st') \<longrightarrow>
              process_individual_object w st urn obj = Inr ((raw, d), st')))
       \<and> (\<forall>ot d st'. process_individual_object w st urn obj = Inr ((ot, d), st') \<longrightarrow>
            (if raw = JStr ''Indieningsvereisten''
             then \<exists>t. getitem obj ''toestemming'' = Inr t \<and> getitem t ''waarde'' = Inr ot
             else ot = raw)
            \<and> (\<exists>f. getitem obj ''functioneleStructuurRef'' = Inr f
                   \<and> get_regelbeheerobject w st urn ot f = Inr (d, st')))
       \<and> (\<forall>obj'. raw \<noteq> JStr ''Indieningsvereisten''
             \<and> getitem obj' ''typering'' = Inr raw
             \<and> getitem obj' ''functioneleStructuurRef'' = getitem obj ''functioneleStructuurRef''
            \<longrightarrow> process_individual_object w st urn obj' = process_individual_object w st urn obj)"
proof (intro conjI allI impI)
  fix t v f d st'
  assume "raw = JStr ''Indieningsvereisten''"
    and "getitem obj ''toestemming'' = Inr t \<and> getitem t ''waarde'' = Inr v
                \<and> getitem obj ''functioneleStructuurRef'' = Inr f
                \<and> get_regelbeheerobject w st urn v f = Inr (d, st')"
  with raw show "process_individual_object w st urn obj = Inr ((v, d), st')"
    by (simp add: process_individual_object_def effective_type_def)
next
  fix f d st'
  assume "raw \<noteq> JStr ''Indieningsvereisten''"
    and "getitem obj ''functioneleStructuurRef'' = Inr f
                \<and> get_regelbeheerobject w st urn raw f = Inr (d, st')"
  with raw show "process_individual_object w st urn obj = Inr ((raw, d), st')"
    by (simp add: process_individual_object_def effective_type_def)
next
  fix ot d st'
  assume p: "process_individual_object w st urn obj = Inr ((ot, d), st')"
  with raw show "if raw = JStr ''Indieningsvereisten''
             then \<exists>t. getitem obj ''toestemming'' = Inr t \<and> getitem t ''waarde'' = Inr ot
             else ot = raw"
    by (auto simp add: process_individual_object_def effective_type_def bind_err_eq_Inr
        split: if_splits)
  from p show "\<exists>f. getitem obj ''functioneleStructuurRef'' = Inr f
                   \<and> get_regelbeheerobject w st urn ot f = Inr (d, st')"
    by (auto simp add: process_individual_object_def bind_err_eq_Inr)
next
  fix obj'
  assume "raw \<noteq> JStr ''Indieningsvereisten''
             \<and> getitem obj' ''typering'' = Inr raw
             \<and> getitem obj' ''functioneleStructuurRef'' = getitem obj ''functioneleStructuurRef''"
  with raw show "process_individual_object w st urn obj' = process_individual_object w st urn obj"
    by (simp add: process_individual_object_def effective_type_def)
qed

theorem process_individual_object_category_witness:
  "getitem permit_object ''typering'' = Inr (JStr ''Indieningsvereisten'')
   \<and> getitem permit_object ''toestemming'' = Inr (JObj [(''waarde'', JStr ''Conclusie'')])
   \<and> process_individual_object (example_world net_dates) example_rtr ''b'' permit_object
       = Inr ((JStr ''Conclusie'', JStr ''2024-01-01''),
              example_rtr\<lparr>sttr_url_per_activity := [(''b_Conclusie'', JStr ''https://h/toepasbareRegels/r1/sttr'')],
                          request_count := 1\<rparr>)
   \<and> category_index (JStr ''Conclusie'') = Inr (Some 0)
   \<and> getitem melding_object ''typering'' = Inr (JStr ''Melding'')
   \<and> getitem melding_object ''toestemming'' = Inl (KeyError ([CHR 0x27] @ ''toestemming'' @ [CHR 0x27]))
   \<and> process_individual_object (example_world net_dates) example_rtr ''b'' melding_object
       = Inr ((JStr ''Melding'', JStr ''2024-01-01''),
              example_rtr\<lparr>sttr_url_per_activity := [(''b_Melding'', JStr ''https://h/toepasbareRegels/r1/sttr'')],
                          request_count := 1\<rparr>)
   \<and> category_index (JStr ''Melding'') = Inr (Some 1)
   \<and> process_individual_object (example_world net_dates) example_rtr ''b''
        (JObj [(''typering'', JStr ''Melding''), (''toestemming'', JNull), (''functioneleStructuurRef'', JStr ''r1'')])
       = Inr ((JStr ''Melding'', JStr ''2024-01-01''),
              example_rtr\<lparr>sttr_url_per_activity := [(''b_Melding'', JStr ''https://h/toepasbareRegels/r1/sttr'')],
                          request_count := 1\<rparr>)
   \<and> (\<exists>t. getitem permit_object ''toestemming'' = Inr t \<and> getitem t ''waarde'' = Inr (JStr ''Conclusie''))"
proof -
  have p: "getitem permit_object ''typering'' = Inr (JStr ''Indieningsvereisten'')"
    and pt: "getitem permit_object ''toestemming'' = Inr (JObj [(''waarde'', JStr ''Conclusie'')])"
    and pw: "getitem (JObj [(''waarde'', JStr ''Conclusie'')]) ''waarde'' = Inr (JStr ''Conclusie'')"
    and pf: "getitem permit_object ''functioneleStructuurRef'' = Inr (JStr ''r0'')"
    by (simp_all add: permit_object_def)
  have m: "getitem melding_object ''typering'' = Inr (JStr ''Melding'')"
    and mt: "getitem melding_object ''toestemming'' = Inl (KeyError ([CHR 0x27] @ ''toestemming'' @ [CHR 0x27]))"
    and mf: "getitem melding_object ''functioneleStructuurRef'' = Inr (JStr ''r1'')"
    by (simp_all add: melding_object_def)
  have ne: "JStr ''Melding'' \<noteq> JStr ''Indieningsvereisten''"
    by simp
  note tp = process_individual_object_category [OF p, of "example_world net_dates" example_rtr "''b''"]
  note tm = process_individual_object_category [OF m, of "example_world net_dates" example_rtr "''b''"]
  from tp [THEN conjunct1, THEN mp, OF refl, THEN spec, THEN spec, THEN spec, THEN spec, THEN spec,
      THEN mp, OF conjI [OF pt conjI [OF pw conjI [OF pf permit_object_fetch]]]]
  have rp: "process_individual_object (example_world net_dates) example_rtr ''b'' permit_object
       = Inr ((JStr ''Conclusie'', JStr ''2024-01-01''),
              example_rtr\<lparr>sttr_url_per_activity := [(''b_Conclusie'', JStr ''https://h/toepasbareRegels/r1/sttr'')],
                          request_count := 1\<rparr>)" .
  from tm [THEN conjunct2, THEN conjunct1, THEN mp, OF ne, THEN spec, THEN spec, THEN spec,
      THEN mp, OF conjI [OF mf melding_object_fetch]]
  have rm: "process_individual_object (example_world net_dates) example_rtr ''b'' melding_object
       = Inr ((JStr ''Melding'', JStr ''2024-01-01''),
              example_rtr\<lparr>sttr_url_per_activity := [(''b_Melding'', JStr ''https://h/toepasbareRegels/r1/sttr'')],
                          request_count := 1\<rparr>)" .
  have o: "getitem (JObj [(''typering'', JStr ''Melding''), (''toestemming'', JNull), (''functioneleStructuurRef'', JStr ''r1'')])
        ''typering'' = Inr (JStr ''Melding'')
      \<and> getitem (JObj [(''typering'', JStr ''Melding''), (''toestemming'', JNull), (''functioneleStructuurRef'', JStr ''r1'')])
        ''functioneleStructuurRef'' = getitem melding_object ''functioneleStructuurRef''"
    by (simp add: melding_object_def)
  from tm [THEN conjunct2, THEN conjunct2, THEN conjunct2, THEN spec, THEN mp, OF conjI [OF ne o]] rm
  have ro: "process_individual_object (example_world net_dates) example_rtr ''b''
        (JObj [(''typering'', JStr ''Melding''), (''toestemming'', JNull), (''functioneleStructuurRef'', JStr ''r1'')])
       = Inr ((JStr ''Melding'', JStr ''2024-01-01''),
              example_rtr\<lparr>sttr_url_per_activity := [(''b_Melding'', JStr ''https://h/toepasbareRegels/r1/sttr'')],
                          request_count := 1\<rparr>)"
    by (rule trans)
  from tp [THEN conjunct2, THEN conjunct2, THEN conjunct1, THEN spec, THEN spec, THEN spec, THEN mp, OF rp]
  have nested: "\<exists>t. getitem permit_object ''toestemming'' = Inr t \<and> getitem t ''waarde'' = Inr (JStr ''Conclusie'')"
    by simp
  have ci: "category_index (JStr ''Conclusie'') = Inr (Some 0)"
    and cm: "category_index (JStr ''Melding'') = Inr (Some 1)"
    by (simp_all add: category_index_def categories_def)
  from p pt rp ci m mt rm cm ro nested show ?thesis
    by (intro conjI)
qed

section \<open>The document archive index\<close>

text \<open>
  C5. \<^verbatim>\<open>append_sttr_file\<close> leaves the index as it is when the effective type is the
  string \<^verbatim>\<open>null\<close> (with a document reference present, the whole state is unchanged)
  and when the document reference cannot be extracted; with a reference and any other
  string as type, the index maps the short name of the URN, an underscore and the type
  with underscores for spaces to the reference.
\<close>

theorem append_sttr_file_index:
  "(\<forall>st'. append_sttr_file w st urn (JStr ''null'') data = Inr st' \<longrightarrow>
       sttr_url_per_activity st' = sttr_url_per_activity st)
   \<and> (\<forall>h. sttr_bestand_href data = Inr h \<longrightarrow> append_sttr_file w st urn (JStr ''null'') data = Inr st)
   \<and> (\<forall>e st'. sttr_bestand_href data = Inl e \<and> append_sttr_file w st urn ot data = Inr st' \<longrightarrow>
       sttr_url_per_activity st' = sttr_url_per_activity st)
   \<and> (\<forall>h t. sttr_bestand_href data = Inr h \<and> ot = JStr t \<and> t \<noteq> ''null'' \<longrightarrow>
       append_sttr_file w st urn ot data =
         Inr (st\<lparr>sttr_url_per_activity :=
                  AList.update (urn @ ''_'' @ replace_space t) h (sttr_url_per_activity st)\<rparr>)
       \<and> map_of (AList.update (urn @ ''_'' @ replace_space t) h (sttr_url_per_activity st))
            (urn @ ''_'' @ replace_space t) = Some h)"
  by (auto simp add: append_sttr_file_def print_def update_Some_unfold
      split: sum.splits error.splits)

theorem append_sttr_file_index_witness:
  "sttr_bestand_href (rule_record ''2024-01-01'') = Inr (JStr ''https://h/toepasbareRegels/r1/sttr'')
   \<and> append_sttr_file (example_world net_fail) example_rtr ''b'' (JStr ''Aanvraag vergunning'') (rule_record ''2024-01-01'')
       = Inr (example_rtr\<lparr>sttr_url_per_activity := [(''b_Aanvraag_vergunning'', JStr ''https://h/toepasbareRegels/r1/sttr'')]\<rparr>)
   \<and> append_sttr_file (example_world net_fail) example_rtr ''b'' (JStr ''null'') (rule_record ''2024-01-01'')
       = Inr example_rtr"
proof -
  have h: "sttr_bestand_href (rule_record ''2024-01-01'') = Inr (JStr ''https://h/toepasbareRegels/r1/sttr'')"
    by (simp add: sttr_bestand_href_def rule_record_def)
  note t = append_sttr_file_index [of "example_world net_fail" example_rtr "''b''"
      "rule_record ''2024-01-01''" "JStr ''Aanvraag vergunning''"]
  from t have "\<forall>h. sttr_bestand_href (rule_record ''2024-01-01'') = Inr h \<longrightarrow>
      append_sttr_file (example_world net_fail) example_rtr ''b'' (JStr ''null'') (rule_record ''2024-01-01'') = Inr example_rtr"
    by (elim conjE)
  with h have n: "append_sttr_file (example_world net_fail) example_rtr ''b'' (JStr ''null'') (rule_record ''2024-01-01'') = Inr example_rtr"
    by blast
  from t have "\<forall>h t. sttr_bestand_href (rule_record ''2024-01-01'') = Inr h
       \<and> JStr ''Aanvraag vergunning'' = JStr t \<and> t \<noteq> ''null'' \<longrightarrow>
       append_sttr_file (example_world net_fail) example_rtr ''b'' (JStr ''Aanvraag vergunning'') (rule_record ''2024-01-01'') =
         Inr (example_rtr\<lparr>sttr_url_per_activity :=
                  AList.update (''b'' @ ''_'' @ replace_space t) h (sttr_url_per_activity example_rtr)\<rparr>)
       \<and> map_of (AList.update (''b'' @ ''_'' @ replace_space t) h (sttr_url_per_activity example_rtr))
            (''b'' @ ''_'' @ replace_space t) = Some h"
    by (elim conjE)
  from this [THEN spec, THEN spec, of "JStr ''https://h/toepasbareRegels/r1/sttr''" "''Aanvraag vergunning''"] h
  have a: "append_sttr_file (example_world net_fail) example_rtr ''b'' (JStr ''Aanvraag vergunning'') (rule_record ''2024-01-01'')
       = Inr (example_rtr\<lparr>sttr_url_per_activity := [(''b_Aanvraag_vergunning'', JStr ''https://h/toepasbareRegels/r1/sttr'')]\<rparr>)"
    by (simp add: replace_space_def example_rtr_def)
  from h n a show ?thesis by simp
qed

section \<open>The change vector\<close>

lemma category_index_less: "category_index ot = Inr (Some i) \<Longrightarrow> i < 4"
  by (auto simp add: category_index_def categories_def split: if_splits json.splits)

lemma process_individual_object_failed:
  assumes "effective_type obj = Inr ot"
    and "getitem obj ''functioneleStructuurRef'' = Inr fsr"
    and "net w (request_count st) (compose_regel_beheer_object_url st fsr) = Inr r"
    and "\<not> ok r"
  shows "process_individual_object w st urn obj =
           Inr ((ot, JNull), st\<lparr>request_count := Suc (request_count st)\<rparr>)"
  using assms
  by (simp add: process_individual_object_def get_regelbeheerobject_def session_get_def)

text \<open>
  What the body of the loop does with an object whose applicable-rule fetch is not
  \<^verbatim>\<open>ok\<close>: the \<^verbatim>\<open>None\<close> that \<^verbatim>\<open>get_regelbeheerobject\<close> returns is stored in the slot of
  the effective type when that is one of the four names; otherwise no slot changes. A
  successful fetch of a record without \<^verbatim>\<open>_embedded\<close> stores the empty string.
\<close>

lemma changes_step_failed_fetch:
  assumes ot: "effective_type obj = Inr ot"
    and fsr: "getitem obj ''functioneleStructuurRef'' = Inr fsr"
    and resp: "net w (request_count st) (compose_regel_beheer_object_url st fsr) = Inr r"
    and len: "length changes = 4"
  shows "(\<not> ok r \<longrightarrow>
            (\<forall>i. category_index ot = Inr (Some i) \<longrightarrow>
               changes_step w st urn changes obj =
                 Inr (changes[i := JNull], st\<lparr>request_count := Suc (request_count st)\<rparr>)
               \<and> (changes[i := JNull]) ! i = JNull)
          \<and> (category_index ot = Inr None \<longrightarrow>
               changes_step w st urn changes obj =
                 Inr (changes, st\<lparr>request_count := Suc (request_count st)\<rparr>)))
       \<and> (\<forall>kvs i. ok r \<and> json_body r = Some (JObj kvs) \<and> map_of kvs ''_embedded'' = None
              \<and> category_index ot = Inr (Some i) \<longrightarrow>
            (\<exists>st'. changes_step w st urn changes obj = Inr (changes[i := JStr []], st'))
            \<and> (changes[i := JStr []]) ! i = JStr [])"
proof (intro conjI impI allI)
  fix i
  assume "\<not> ok r" and ci: "category_index ot = Inr (Some i)"
  then show "changes_step w st urn changes obj =
      Inr (changes[i := JNull], st\<lparr>request_count := Suc (request_count st)\<rparr>)"
    using process_individual_object_failed [OF ot fsr resp, of urn]
    by (simp add: changes_step_def)
  from category_index_less [OF ci] len show "(changes[i := JNull]) ! i = JNull"
    by simp
next
  assume "\<not> ok r" and "category_index ot = Inr None"
  then show "changes_step w st urn changes obj =
      Inr (changes, st\<lparr>request_count := Suc (request_count st)\<rparr>)"
    using process_individual_object_failed [OF ot fsr resp, of urn]
    by (simp add: changes_step_def)
next
  fix kvs i
  assume a: "ok r \<and> json_body r = Some (JObj kvs) \<and> map_of kvs ''_embedded'' = None
              \<and> category_index ot = Inr (Some i)"
  then have "process_individual_object w st urn obj =
      Inr ((ot, JStr []),
           print (''Data missing key: '' @ [CHR 0x27] @ ([CHR 0x27] @ ''_embedded'' @ [CHR 0x27]) @ [CHR 0x27]
                    @ ''. Regelbeheerobject: '' @ extract_identifier w (JObj kvs))
             (st\<lparr>request_count := Suc (request_count st)\<rparr>))"
    using ot fsr resp
    by (simp add: process_individual_object_def get_regelbeheerobject_def session_get_def
        response_json_def append_sttr_file_def sttr_bestand_href_def get_last_change_date_def)
  with a show "\<exists>st'. changes_step w st urn changes obj = Inr (changes[i := JStr []], st')"
    by (simp add: changes_step_def)
  from a category_index_less [of ot i] len show "(changes[i := JStr []]) ! i = JStr []"
    by simp
qed

text \<open>
  C1. An activity with two objects of the type \<^verbatim>\<open>Melding\<close>; the fetch of the first
  answers \<^verbatim>\<open>ok\<close> with the date \<^verbatim>\<open>2024-01-01\<close>, the fetch of the second with status
  500. After the first object the slot of \<^verbatim>\<open>Melding\<close> holds the date; at the end of
  \<^verbatim>\<open>fetch_and_process_changes\<close> it holds \<^verbatim>\<open>None\<close>: the failed fetch has replaced the
  value the slot held, where the claim keeps it.
\<close>

theorem failed_fetch_overwrites_slot:
  "net (example_world net_then_fail) 1 (compose_regel_beheer_object_url example_rtr (JStr ''r2''))
     = Inr failed_response
   \<and> \<not> ok failed_response
   \<and> changes_loop (example_world net_then_fail) example_rtr ''b''
        [JStr [], JStr [], JStr [], JStr []] [melding_object]
      = Inr ([JStr [], JStr ''2024-01-01'', JStr [], JStr []],
             example_rtr\<lparr>sttr_url_per_activity := [(''b_Melding'', JStr ''https://h/toepasbareRegels/r1/sttr'')],
                         request_count := 1\<rparr>)
   \<and> fetch_and_process_changes (example_world net_then_fail) example_rtr twice_melding
      = Inr ([JStr [], JNull, JStr [], JStr []],
             example_rtr\<lparr>sttr_url_per_activity := [(''b_Melding'', JStr ''https://h/toepasbareRegels/r1/sttr'')],
                         request_count := 2\<rparr>)
   \<and> JNull \<noteq> JStr ''2024-01-01''"
  by code_simp

section \<open>Failures\<close>

text \<open>
  C7. A server error (status 500) at each of the three fetches. The activity fetch prints
  the URI and the status and the archival fetch prints the address and the status;
  \<^verbatim>\<open>get_regelbeheerobject\<close> returns \<^verbatim>\<open>None\<close> and prints nothing.
\<close>

theorem failed_fetch_logging:
  "get_regelbeheerobject (example_world net_fail) example_rtr ''b'' (JStr ''Melding'') (JStr ''r1'')
     = Inr (JNull, example_rtr\<lparr>request_count := 1\<rparr>)
   \<and> stdout (example_rtr\<lparr>request_count := 1\<rparr>) = stdout example_rtr
   \<and> get_activity_data (example_world net_fail) example_rtr ''act''
     = Inr (JNull, example_rtr\<lparr>request_count := 1,
                               stdout := [''Error fetching data for URI act: 500'']\<rparr>)
   \<and> archive_sttr_file (example_world net_fail) example_rtr
        (''b_Melding'', JStr ''https://h/toepasbareRegels/r1/sttr'')
     = Inr (example_rtr\<lparr>request_count := 1,
                         stdout := [''Failed to download data from https://h/toepasbareRegels/r1/sttr, status code: 500'']\<rparr>)"
  by (simp add: get_regelbeheerobject_def get_activity_data_def archive_sttr_file_def
      session_get_def example_world_def net_fail_def failed_response_def example_rtr_def
      print_def py_split_def
      str_nat.simps [of 500] str_nat.simps [of 50] str_nat.simps [of 5] digit_char_def)

lemma plain_parse_self_link:
  "plain_parse_qs ''functioneleStructuurRef=http://r/id/concept/Kappen&datum=01-01-2024''
     = Inr [(''functioneleStructuurRef'', [''http://r/id/concept/Kappen'']), (''datum'', [''01-01-2024''])]"
  by code_simp




section \<open>What the loop over the rule-management objects changes\<close>

lemma objects_frame_refl: "objects_frame st st"
  by (simp add: objects_frame_def)

lemma objects_frame_trans: "objects_frame a b \<Longrightarrow> objects_frame b c \<Longrightarrow> objects_frame a c"
  by (cases a, cases b, cases c) (simp add: objects_frame_def)

lemma objects_frame_session_get:
  "session_get w st url = Inr (r, st') \<Longrightarrow> objects_frame st st'"
  by (auto simp add: session_get_def objects_frame_def split: sum.splits)

lemma objects_frame_append_sttr_file:
  "append_sttr_file w st urn ot data = Inr st' \<Longrightarrow> objects_frame st st'"
  by (auto simp add: append_sttr_file_def objects_frame_def print_def Let_def
      split: sum.splits error.splits if_splits json.splits)

lemma objects_frame_get_regelbeheerobject:
  assumes "get_regelbeheerobject w st urn ot fsr = Inr (d, st')"
  shows "objects_frame st st'"
proof -
  from assms obtain r st1 where g: "session_get w st (compose_regel_beheer_object_url st fsr) = Inr (r, st1)"
    and rest: "(if ok r then
          bind_err (response_json r) (\<lambda>data.
          bind_err (append_sttr_file w st1 urn ot data) (\<lambda>st2.
          bind_err (get_last_change_date data) (\<lambda>last_changed.
          Inr (last_changed, st2))))
        else Inr (JNull, st1)) = Inr (d, st')"
    by (auto simp add: get_regelbeheerobject_def bind_err_eq_Inr)
  have f1: "objects_frame st st1" by (rule objects_frame_session_get [OF g])
  show ?thesis
  proof (cases "ok r")
    case False
    with rest f1 show ?thesis by simp
  next
    case True
    with rest obtain data where "append_sttr_file w st1 urn ot data = Inr st'"
      by (auto simp add: bind_err_eq_Inr)
    then have "objects_frame st1 st'" by (rule objects_frame_append_sttr_file)
    with f1 show ?thesis by (rule objects_frame_trans)
  qed
qed

lemma objects_frame_process_individual_object:
  "process_individual_object w st urn obj = Inr (res, st') \<Longrightarrow> objects_frame st st'"
  by (auto simp add: process_individual_object_def bind_err_eq_Inr
      dest: objects_frame_get_regelbeheerobject)

lemma changes_step_Inr:
  assumes "changes_step w st urn changes obj = Inr (changes', st')"
  shows "\<exists>ot d. process_individual_object w st urn obj = Inr ((ot, d), st')
           \<and> ((\<exists>i. category_index ot = Inr (Some i) \<and> changes' = changes[i := d])
               \<or> (category_index ot = Inr None \<and> changes' = changes))"
  using assms
  by (auto simp add: changes_step_def bind_err_eq_Inr split: option.splits)

lemma changes_step_frame:
  assumes "changes_step w st urn changes obj = Inr (changes', st')"
  shows "objects_frame st st' \<and> length changes' = length changes"
  using changes_step_Inr [OF assms]
  by (auto dest: objects_frame_process_individual_object)

lemma changes_loop_frame:
  "changes_loop w st urn changes objs = Inr (changes', st') \<Longrightarrow>
     objects_frame st st' \<and> length changes' = length changes"
proof (induction objs arbitrary: st changes)
  case Nil
  then show ?case by (simp add: objects_frame_refl)
next
  case (Cons obj objs)
  from Cons.prems obtain ch1 st1 where s: "changes_step w st urn changes obj = Inr (ch1, st1)"
    and l: "changes_loop w st1 urn ch1 objs = Inr (changes', st')"
    by (auto split: sum.splits)
  from changes_step_frame [OF s] Cons.IH [OF l] show ?case
    by (auto intro: objects_frame_trans)
qed

lemma fetch_and_process_changes_Inr:
  assumes "fetch_and_process_changes w st data = Inr (changes, st')"
  shows "\<exists>urn_name present.
           contains ''regelBeheerObjecten'' data = Inr present
         \<and> (if present then
               \<exists>objects objs. getitem data ''regelBeheerObjecten'' = Inr objects \<and> iter objects = Inr objs
                 \<and> changes_loop w st urn_name [JStr [], JStr [], JStr [], JStr []] objs = Inr (changes, st')
             else changes = [JStr [], JStr [], JStr [], JStr []] \<and> st' = st)"
  using assms
  by (auto simp add: fetch_and_process_changes_def bind_err_eq_Inr Let_def split: if_splits)

lemma fetch_and_process_changes_frame:
  assumes "fetch_and_process_changes w st data = Inr (changes, st')"
  shows "objects_frame st st' \<and> length changes = 4"
  using fetch_and_process_changes_Inr [OF assms]
  by (auto simp add: objects_frame_refl split: if_splits dest: changes_loop_frame)

lemma extract_werkzaamheden_single:
  "extract_werkzaamheden data = Inr ws \<Longrightarrow> \<exists>s. ws = [JStr s]"
  by (auto simp add: extract_werkzaamheden_def bind_err_eq_Inr split: if_splits)

section \<open>The output row\<close>

lemma get_activity_data_ok:
  assumes "get_activity_data w st uri = Inr (j, st')"
    and "net w (request_count st) (compose_activity_url st uri) = Inr resp"
    and "ok resp"
  shows "json_body resp = Some j
       \<and> update_werkingsgebied_per_activity (st\<lparr>request_count := Suc (request_count st)\<rparr>) j = Inr st'"
  using assms
  by (auto simp add: get_activity_data_def session_get_def bind_err_eq_Inr response_json_def
      split: option.splits)

lemma archive_activity_data_Inr:
  assumes "archive_activity_data w st row name uri g r data = Inr st'"
  shows "\<exists>work changes st1. extract_werkzaamheden data = Inr [JStr work]
           \<and> fetch_and_process_changes w st data = Inr (changes, st1)
           \<and> st' = st1\<lparr>excel := excel st1 @ [(row, [JStr name, JStr uri, JStr g, JStr r, JStr work] @ changes)]\<rparr>"
proof -
  from assms obtain ws changes st1 where w: "extract_werkzaamheden data = Inr ws"
    and f: "fetch_and_process_changes w st data = Inr (changes, st1)"
    and s: "st' = st1\<lparr>excel := excel st1 @ [(row, [JStr name, JStr uri, JStr g, JStr r] @ ws @ changes)]\<rparr>"
    by (auto simp add: archive_activity_data_def bind_err_eq_Inr Let_def)
  from extract_werkzaamheden_single [OF w] obtain work where "ws = [JStr work]" by blast
  with w f s show ?thesis by simp
qed


















section \<open>Work items\<close>




section \<open>Two objects of one category\<close>

lemma nth_index_of: "x \<in> set xs \<Longrightarrow> xs ! index_of xs x = x"
  by (induction xs) auto

lemma index_of_less: "x \<in> set xs \<Longrightarrow> index_of xs x < length xs"
  by (induction xs) auto

lemma index_of_inject:
  "x \<in> set xs \<Longrightarrow> y \<in> set xs \<Longrightarrow> index_of xs x = index_of xs y \<Longrightarrow> x = y"
  by (metis nth_index_of)

lemma category_index_Some:
  "category_index ot = Inr (Some i) \<Longrightarrow>
     \<exists>s. ot = JStr s \<and> s \<in> set categories \<and> i = index_of categories s"
  by (auto simp add: category_index_def split: if_splits json.splits)

lemma category_index_member:
  "c \<in> set categories \<Longrightarrow> category_index (JStr c) = Inr (Some (index_of categories c))"
  by (simp add: category_index_def)

lemma process_individual_object_type:
  "process_individual_object w st urn obj = Inr ((ot, d), st') \<Longrightarrow> effective_type obj = Inr ot"
  by (auto simp add: process_individual_object_def bind_err_eq_Inr)

lemma changes_loop_append:
  "changes_loop w st urn changes (xs @ ys) =
     (case changes_loop w st urn changes xs of
        Inl e \<Rightarrow> Inl e
      | Inr (changes1, st1) \<Rightarrow> changes_loop w st1 urn changes1 ys)"
  by (induction xs arbitrary: st changes) (auto split: sum.splits)

lemma changes_step_other_slot:
  assumes step: "changes_step w st urn changes obj = Inr (changes', st')"
    and other: "effective_type obj \<noteq> Inr (JStr c)"
    and cat: "c \<in> set categories"
  shows "changes' ! index_of categories c = changes ! index_of categories c"
proof -
  from changes_step_Inr [OF step] obtain ot d
    where p: "process_individual_object w st urn obj = Inr ((ot, d), st')"
      and alt: "(\<exists>i. category_index ot = Inr (Some i) \<and> changes' = changes[i := d])
                 \<or> (category_index ot = Inr None \<and> changes' = changes)"
    by blast
  from process_individual_object_type [OF p] other have ne: "ot \<noteq> JStr c" by auto
  from alt show ?thesis
  proof
    assume "\<exists>i. category_index ot = Inr (Some i) \<and> changes' = changes[i := d]"
    then obtain i where ci: "category_index ot = Inr (Some i)" and ch: "changes' = changes[i := d]"
      by blast
    from category_index_Some [OF ci] obtain s where "ot = JStr s" "s \<in> set categories"
      "i = index_of categories s" by blast
    with ne cat have "i \<noteq> index_of categories c"
      by (auto dest: index_of_inject)
    with ch show ?thesis by simp
  next
    assume "category_index ot = Inr None \<and> changes' = changes"
    then show ?thesis by simp
  qed
qed

lemma changes_loop_other_slot:
  assumes "changes_loop w st urn changes objs = Inr (changes', st')"
    and "\<forall>obj\<in>set objs. effective_type obj \<noteq> Inr (JStr c)"
    and "c \<in> set categories"
  shows "changes' ! index_of categories c = changes ! index_of categories c"
  using assms
proof (induction objs arbitrary: st changes)
  case Nil
  then show ?case by simp
next
  case (Cons obj objs)
  from Cons.prems(1) obtain ch1 st1 where s: "changes_step w st urn changes obj = Inr (ch1, st1)"
    and l: "changes_loop w st1 urn ch1 objs = Inr (changes', st')"
    by (auto split: sum.splits)
  from Cons.prems(2) have o: "effective_type obj \<noteq> Inr (JStr c)"
    and os: "\<forall>obj\<in>set objs. effective_type obj \<noteq> Inr (JStr c)"
    by simp_all
  from Cons.IH [OF l os Cons.prems(3)] changes_step_other_slot [OF s o Cons.prems(3)]
  show ?case by simp
qed

lemma get_regelbeheerobject_ok:
  assumes "get_regelbeheerobject w st urn ot fsr = Inr (d, st')"
    and "net w (request_count st) (compose_regel_beheer_object_url st fsr) = Inr r"
    and "ok r"
  shows "\<exists>j. json_body r = Some j \<and> get_last_change_date j = Inr d"
  using assms
  by (auto simp add: get_regelbeheerobject_def session_get_def bind_err_eq_Inr response_json_def
      split: option.splits)

lemma twice_informatie_changes:
  "fetch_and_process_changes (example_world net_dates) example_rtr twice_informatie
     = Inr ([JStr [], JStr [], JStr [], JStr ''2024-02-02''],
            example_rtr\<lparr>sttr_url_per_activity := [(''b_Informatie'', JStr ''https://h/toepasbareRegels/r1/sttr'')],
                        request_count := 2\<rparr>)"
  by code_simp

text \<open>
  What a completed loop leaves in a slot. When the list of rule-management objects holds
  an object of one of the four categories, no later object of the list has that category,
  and the processing of the list completes, the slot of the category holds what was
  returned for that object, whatever the earlier objects of the category wrote: the date
  of its record when its fetch answered \<^verbatim>\<open>ok\<close>. Nothing is merged.
\<close>

theorem last_write_wins:
  assumes run: "fetch_and_process_changes w st data = Inr (changes, st')"
    and objs: "getitem data ''regelBeheerObjecten'' = Inr (JArr (pre @ o2 # post))"
    and cls: "effective_type o2 = Inr (JStr c)"
    and cat: "c \<in> set categories"
    and later: "\<forall>obj\<in>set post. effective_type obj \<noteq> Inr (JStr c)"
  shows "\<exists>urn_name changes1 st1 d st2.
           changes_loop w st urn_name [JStr [], JStr [], JStr [], JStr []] pre = Inr (changes1, st1)
         \<and> process_individual_object w st1 urn_name o2 = Inr ((JStr c, d), st2)
         \<and> changes ! index_of categories c = d
         \<and> (\<forall>fsr r. getitem o2 ''functioneleStructuurRef'' = Inr fsr
                \<and> net w (request_count st1) (compose_regel_beheer_object_url st1 fsr) = Inr r
                \<and> ok r \<longrightarrow>
              (\<exists>j. json_body r = Some j \<and> get_last_change_date j = Inr d))"
proof -
  from objs obtain kvs where data: "data = JObj kvs"
    and look: "map_of kvs ''regelBeheerObjecten'' = Some (JArr (pre @ o2 # post))"
    by (cases data) (auto split: option.splits)
  from look have "''regelBeheerObjecten'' \<in> set (map fst kvs)"
    by (auto dest: map_of_SomeD intro: rev_image_eqI)
  with data have present: "contains ''regelBeheerObjecten'' data = Inr True"
    by simp
  from fetch_and_process_changes_Inr [OF run] present objs obtain urn_name
    where loop: "changes_loop w st urn_name [JStr [], JStr [], JStr [], JStr []] (pre @ o2 # post)
                   = Inr (changes, st')"
    by auto
  from loop obtain changes1 st1
    where l1: "changes_loop w st urn_name [JStr [], JStr [], JStr [], JStr []] pre = Inr (changes1, st1)"
      and l2: "changes_loop w st1 urn_name changes1 (o2 # post) = Inr (changes, st')"
    by (auto simp add: changes_loop_append split: sum.splits)
  from l2 obtain changes2 st2
    where s: "changes_step w st1 urn_name changes1 o2 = Inr (changes2, st2)"
      and l3: "changes_loop w st2 urn_name changes2 post = Inr (changes, st')"
    by (auto split: sum.splits)
  from changes_step_Inr [OF s] obtain ot d
    where p: "process_individual_object w st1 urn_name o2 = Inr ((ot, d), st2)"
      and alt: "(\<exists>i. category_index ot = Inr (Some i) \<and> changes2 = changes1[i := d])
                 \<or> (category_index ot = Inr None \<and> changes2 = changes1)"
    by blast
  from process_individual_object_type [OF p] cls have ot: "ot = JStr c" by simp
  with alt category_index_member [OF cat]
  have c2: "changes2 = changes1[index_of categories c := d]" by auto
  from changes_loop_frame [OF l1] have "length changes1 = 4" by simp
  moreover from index_of_less [OF cat] have "index_of categories c < 4"
    by (simp add: categories_def)
  ultimately have "changes2 ! index_of categories c = d"
    using c2 by simp
  with changes_loop_other_slot [OF l3 later cat] have slot: "changes ! index_of categories c = d"
    by simp
  have fetched: "\<exists>j. json_body r = Some j \<and> get_last_change_date j = Inr d"
    if "getitem o2 ''functioneleStructuurRef'' = Inr fsr
        \<and> net w (request_count st1) (compose_regel_beheer_object_url st1 fsr) = Inr r \<and> ok r"
    for fsr r
  proof -
    from p ot cls that have "get_regelbeheerobject w st1 urn_name (JStr c) fsr = Inr (d, st2)"
      by (auto simp add: process_individual_object_def bind_err_eq_Inr)
    with that show ?thesis by (auto dest: get_regelbeheerobject_ok)
  qed
  from l1 p ot slot fetched show ?thesis by blast
qed

theorem last_write_wins_witness:
  "fetch_and_process_changes (example_world net_dates) example_rtr twice_informatie
     = Inr ([JStr [], JStr [], JStr [], JStr ''2024-02-02''],
            example_rtr\<lparr>sttr_url_per_activity := [(''b_Informatie'', JStr ''https://h/toepasbareRegels/r1/sttr'')],
                        request_count := 2\<rparr>)
   \<and> getitem twice_informatie ''regelBeheerObjecten''
       = Inr (JArr ([informatie_object ''r1''] @ informatie_object ''r2'' # []))
   \<and> effective_type (informatie_object ''r1'') = Inr (JStr ''Informatie'')
   \<and> effective_type (informatie_object ''r2'') = Inr (JStr ''Informatie'')
   \<and> ''Informatie'' \<in> set categories
   \<and> index_of categories ''Informatie'' = 3
   \<and> net_dates 0 [] = Inr (rule_response ''2024-01-01'')
   \<and> net_dates 1 [] = Inr (rule_response ''2024-02-02'')
   \<and> (\<exists>urn_name changes1 st1 d st2.
         changes_loop (example_world net_dates) example_rtr urn_name [JStr [], JStr [], JStr [], JStr []]
           [informatie_object ''r1''] = Inr (changes1, st1)
       \<and> process_individual_object (example_world net_dates) st1 urn_name (informatie_object ''r2'')
           = Inr ((JStr ''Informatie'', d), st2)
       \<and> [JStr [], JStr [], JStr [], JStr ''2024-02-02''] ! index_of categories ''Informatie'' = d)"
proof -
  have objs: "getitem twice_informatie ''regelBeheerObjecten''
       = Inr (JArr ([informatie_object ''r1''] @ informatie_object ''r2'' # []))"
    by (simp add: twice_informatie_def)
  have c1: "effective_type (informatie_object ''r1'') = Inr (JStr ''Informatie'')"
    and c2: "effective_type (informatie_object ''r2'') = Inr (JStr ''Informatie'')"
    by (simp_all add: effective_type_def informatie_object_def)
  have cat: "''Informatie'' \<in> set categories"
    and idx: "index_of categories ''Informatie'' = 3"
    by (simp_all add: categories_def)
  have later: "\<forall>obj\<in>set []. effective_type obj \<noteq> Inr (JStr ''Informatie'')"
    by simp
  have n0: "net_dates 0 [] = Inr (rule_response ''2024-01-01'')"
    and n1: "net_dates 1 [] = Inr (rule_response ''2024-02-02'')"
    by (simp_all add: net_dates_def)
  from last_write_wins [OF twice_informatie_changes objs c2 cat later]
  obtain urn_name changes1 st1 d st2
    where "changes_loop (example_world net_dates) example_rtr urn_name [JStr [], JStr [], JStr [], JStr []]
           [informatie_object ''r1''] = Inr (changes1, st1)"
      and "process_individual_object (example_world net_dates) st1 urn_name (informatie_object ''r2'')
           = Inr ((JStr ''Informatie'', d), st2)"
      and "[JStr [], JStr [], JStr [], JStr ''2024-02-02''] ! index_of categories ''Informatie'' = d"
    by (elim exE conjE)
  then have "\<exists>urn_name changes1 st1 d st2.
         changes_loop (example_world net_dates) example_rtr urn_name [JStr [], JStr [], JStr [], JStr []]
           [informatie_object ''r1''] = Inr (changes1, st1)
       \<and> process_individual_object (example_world net_dates) st1 urn_name (informatie_object ''r2'')
           = Inr ((JStr ''Informatie'', d), st2)
       \<and> [JStr [], JStr [], JStr [], JStr ''2024-02-02''] ! index_of categories ''Informatie'' = d"
    by (intro exI conjI)
  with twice_informatie_changes objs c1 c2 cat idx n0 n1 show ?thesis
    by (intro conjI)
qed

text \<open>
  C3. An activity with two objects of the type \<^verbatim>\<open>Informatie\<close>; both fetches answer
  \<^verbatim>\<open>ok\<close>, the first with a dated record, the second with a record whose list of rules
  is empty. \<^verbatim>\<open>get_last_change_date\<close> reads the empty string from the second record, so
  the slot should end with it; but \<^verbatim>\<open>append_sttr_file\<close>, called first, takes element 0
  of the empty list, the \<^verbatim>\<open>IndexError\<close> is not a \<^verbatim>\<open>KeyError\<close> and is not caught, and
  \<^verbatim>\<open>fetch_and_process_changes\<close> ends with the exception: there is no change vector.
\<close>

theorem empty_rules_list_aborts:
  "net (example_world net_then_empty) 0 (compose_regel_beheer_object_url example_rtr (JStr ''r1''))
     = Inr (rule_response ''2024-01-01'')
   \<and> ok (rule_response ''2024-01-01'')
   \<and> net (example_world net_then_empty) 1 (compose_regel_beheer_object_url example_rtr (JStr ''r2''))
     = Inr empty_rules_response
   \<and> ok empty_rules_response
   \<and> json_body empty_rules_response = Some empty_rules_record
   \<and> get_last_change_date empty_rules_record = Inr (JStr [])
   \<and> sttr_bestand_href empty_rules_record = Inl IndexError
   \<and> append_sttr_file (example_world net_then_empty) example_rtr ''b'' (JStr ''Informatie'')
        empty_rules_record = Inl IndexError
   \<and> fetch_and_process_changes (example_world net_then_empty) example_rtr twice_informatie
     = Inl IndexError"
  by code_simp

section \<open>The location flag\<close>

lemma bind_err_map_sum:
  "map_sum id g (bind_err m f) = bind_err m (\<lambda>x. map_sum id g (f x))"
  by (cases m) simp_all

lemma session_get_flag:
  "session_get w (location_side b wg fs st) url
     = map_sum id (apsnd (location_side b wg fs)) (session_get w st url)"
  by (simp add: session_get_def location_side_def split: sum.splits)

lemma append_sttr_file_flag:
  "append_sttr_file w (location_side b wg fs st) urn ot data
     = map_sum id (location_side b wg fs) (append_sttr_file w st urn ot data)"
  by (simp add: append_sttr_file_def print_def Let_def location_side_def split: sum.splits error.splits json.splits)

lemma compose_regel_beheer_object_url_flag:
  "compose_regel_beheer_object_url (location_side b wg fs st) fsr = compose_regel_beheer_object_url st fsr"
  by (simp add: compose_regel_beheer_object_url_def location_side_def)

lemma get_regelbeheerobject_flag:
  "get_regelbeheerobject w (location_side b wg fs st) urn ot fsr
     = map_sum id (apsnd (location_side b wg fs)) (get_regelbeheerobject w st urn ot fsr)"
proof (cases "session_get w st (compose_regel_beheer_object_url st fsr)")
  case (Inl e)
  then show ?thesis
    by (simp add: get_regelbeheerobject_def session_get_flag compose_regel_beheer_object_url_flag)
next
  case (Inr p)
  obtain r st1 where p: "p = (r, st1)" by (cases p)
  show ?thesis
  proof (cases "ok r")
    case False
    with Inr p show ?thesis
      by (simp add: get_regelbeheerobject_def session_get_flag compose_regel_beheer_object_url_flag)
  next
    case True
    show ?thesis
    proof (cases "response_json r")
      case (Inl e)
      with True Inr p show ?thesis
        by (simp add: get_regelbeheerobject_def session_get_flag compose_regel_beheer_object_url_flag)
    next
      case data: (Inr data)
      show ?thesis
      proof (cases "append_sttr_file w st1 urn ot data")
        case (Inl e)
        with True Inr p data show ?thesis
          by (simp add: get_regelbeheerobject_def session_get_flag compose_regel_beheer_object_url_flag
              append_sttr_file_flag)
      next
        case st2: (Inr st2)
        with True Inr p data show ?thesis
          by (cases "get_last_change_date data")
            (simp_all add: get_regelbeheerobject_def session_get_flag compose_regel_beheer_object_url_flag
              append_sttr_file_flag)
      qed
    qed
  qed
qed

lemma process_individual_object_flag:
  "process_individual_object w (location_side b wg fs st) urn obj
     = map_sum id (apsnd (location_side b wg fs)) (process_individual_object w st urn obj)"
proof (cases "effective_type obj")
  case (Inl e)
  then show ?thesis by (simp add: process_individual_object_def)
next
  case ot: (Inr ot)
  show ?thesis
  proof (cases "getitem obj ''functioneleStructuurRef''")
    case (Inl e)
    with ot show ?thesis by (simp add: process_individual_object_def)
  next
    case (Inr fsr)
    with ot show ?thesis
      by (cases "get_regelbeheerobject w st urn ot fsr")
        (auto simp add: process_individual_object_def get_regelbeheerobject_flag)
  qed
qed

lemma changes_step_flag:
  "changes_step w (location_side b wg fs st) urn changes obj
     = map_sum id (apsnd (location_side b wg fs)) (changes_step w st urn changes obj)"
proof (cases "process_individual_object w st urn obj")
  case (Inl e)
  then show ?thesis by (simp add: changes_step_def process_individual_object_flag)
next
  case (Inr p)
  obtain ot d st1 where "p = ((ot, d), st1)" by (cases p) auto
  with Inr show ?thesis
    by (cases "category_index ot")
      (auto simp add: changes_step_def process_individual_object_flag split: option.splits)
qed

lemma changes_loop_flag:
  "changes_loop w (location_side b wg fs st) urn changes objs
     = map_sum id (apsnd (location_side b wg fs)) (changes_loop w st urn changes objs)"
proof (induction objs arbitrary: st changes)
  case Nil
  show ?case by simp
next
  case (Cons obj objs)
  show ?case
  proof (cases "changes_step w st urn changes obj")
    case (Inl e)
    then show ?thesis by (simp add: changes_step_flag)
  next
    case (Inr p)
    obtain ch1 st1 where "p = (ch1, st1)" by (cases p)
    with Inr Cons.IH [of st1 ch1] show ?thesis
      by (simp add: changes_step_flag)
  qed
qed

lemma changes_loop_flag_fun:
  "changes_loop w (location_side b wg fs st) urn changes
     = (\<lambda>objs. map_sum id (apsnd (location_side b wg fs)) (changes_loop w st urn changes objs))"
  by (rule ext) (rule changes_loop_flag)

lemma bind_err_cong_weak: "(\<And>x. f x = g x) \<Longrightarrow> bind_err m f = bind_err m g"
  by (cases m) simp_all

lemma fetch_and_process_changes_flag:
  "fetch_and_process_changes w (location_side b wg fs st) data
     = map_sum id (apsnd (location_side b wg fs)) (fetch_and_process_changes w st data)"
  unfolding fetch_and_process_changes_def Let_def bind_err_map_sum
  by (intro bind_err_cong_weak) (simp add: bind_err_map_sum changes_loop_flag_fun)

lemma archive_activity_data_flag:
  "archive_activity_data w (location_side b wg fs st) row name uri g r data
     = map_sum id (location_side b wg fs) (archive_activity_data w st row name uri g r data)"
proof (cases "extract_werkzaamheden data")
  case (Inl e)
  then show ?thesis by (simp add: archive_activity_data_def)
next
  case (Inr ws)
  show ?thesis
  proof (cases "fetch_and_process_changes w st data")
    case (Inl e)
    with Inr show ?thesis
      by (simp add: archive_activity_data_def fetch_and_process_changes_flag)
  next
    case res: (Inr p)
    obtain changes st1 where "p = (changes, st1)" by (cases p)
    with Inr res have "archive_activity_data w (location_side b wg fs st) row name uri g r data
        = Inr ((location_side b wg fs st1)\<lparr>excel := excel (location_side b wg fs st1)
              @ [(row, [JStr name, JStr uri, JStr g, JStr r] @ ws @ changes)]\<rparr>)"
      and "archive_activity_data w st row name uri g r data
        = Inr (st1\<lparr>excel := excel st1 @ [(row, [JStr name, JStr uri, JStr g, JStr r] @ ws @ changes)]\<rparr>)"
      by (simp_all add: archive_activity_data_def fetch_and_process_changes_flag)
    then show ?thesis
      by (simp add: location_side_def)
  qed
qed

lemma update_werkingsgebied_location_side:
  assumes "update_werkingsgebied_per_activity st j = Inr st'"
  shows "st' = location_side (args_location st) (werkingsgebied_per_activity st') (files st') st"
  using assms
  by (auto simp add: update_werkingsgebied_per_activity_def bind_err_eq_Inr
      update_activity_mapping_def write_werkingsgebieden_to_file_def write_to_file_def Let_def
      location_side_def
      split: if_splits)

lemma get_activity_data_net:
  "get_activity_data w st uri = Inr (j, st') \<Longrightarrow>
     \<exists>resp. net w (request_count st) (compose_activity_url st uri) = Inr resp"
  by (auto simp add: get_activity_data_def session_get_def bind_err_eq_Inr split: sum.splits)

lemma get_activity_data_failed:
  assumes "get_activity_data w st uri = Inr (j, st')"
    and "net w (request_count st) (compose_activity_url st uri) = Inr resp"
    and "\<not> ok resp"
  shows "j = JNull
       \<and> st' = print (''Error fetching data for URI '' @ uri @ '': '' @ str_nat (status_code resp))
                  (st\<lparr>request_count := Suc (request_count st)\<rparr>)"
  using assms
  by (auto simp add: get_activity_data_def session_get_def bind_err_eq_Inr)

lemma update_werkingsgebied_disabled:
  "\<not> args_location st \<Longrightarrow> update_werkingsgebied_per_activity st j = Inr st"
  by (simp add: update_werkingsgebied_per_activity_def)

lemma archive_activity_data_location:
  assumes "archive_activity_data w st row name uri g r data = Inr st'"
  shows "werkingsgebied_per_activity st' = werkingsgebied_per_activity st \<and> files st' = files st"
proof -
  from archive_activity_data_Inr [OF assms] obtain work changes st1
    where f: "fetch_and_process_changes w st data = Inr (changes, st1)"
      and s: "st' = st1\<lparr>excel := excel st1 @ [(row, [JStr name, JStr uri, JStr g, JStr r, JStr work] @ changes)]\<rparr>"
    by blast
  from fetch_and_process_changes_frame [OF f] have "objects_frame st st1" by simp
  then have "werkingsgebied_per_activity st1 = werkingsgebied_per_activity st \<and> files st1 = files st"
    by (cases st, cases st1) (simp add: objects_frame_def)
  with s show ?thesis by simp
qed

lemma process_activity_disabled:
  assumes off: "\<not> args_location st"
    and run: "process_activity w st activity row = Inr st'"
  shows "werkingsgebied_per_activity st' = werkingsgebied_per_activity st \<and> files st' = files st"
proof -
  obtain name u1 uri u2 g r u3 where a: "activity = (name, u1, uri, u2, g, r, u3)"
    by (cases activity)
  from run a obtain j st1 where gd: "get_activity_data w st uri = Inr (j, st1)"
    and rest: "(if truthy j then archive_activity_data w st1 row name uri g r j else Inr st1) = Inr st'"
    by (auto simp add: bind_err_eq_Inr)
  from get_activity_data_net [OF gd] obtain resp
    where n: "net w (request_count st) (compose_activity_url st uri) = Inr resp" by blast
  have 1: "werkingsgebied_per_activity st1 = werkingsgebied_per_activity st \<and> files st1 = files st"
  proof (cases "ok resp")
    case True
    from get_activity_data_ok [OF gd n True] off show ?thesis
      by (auto simp add: update_werkingsgebied_disabled)
  next
    case False
    from get_activity_data_failed [OF gd n False] show ?thesis
      by (simp add: print_def)
  qed
  show ?thesis
  proof (cases "truthy j")
    case True
    with rest have "archive_activity_data w st1 row name uri g r j = Inr st'" by simp
    from archive_activity_data_location [OF this] 1 show ?thesis by simp
  next
    case False
    with rest 1 show ?thesis by simp
  qed
qed

lemma location_side_sinks:
  "a = location_side b wg fs c \<Longrightarrow>
     excel a = excel c \<and> sttr_url_per_activity a = sttr_url_per_activity c
     \<and> stdout a = stdout c \<and> request_count a = request_count c"
  by (simp add: location_side_def)

lemma compose_activity_url_flag:
  "compose_activity_url (st\<lparr>args_location := b\<rparr>) uri = compose_activity_url st uri"
  by (simp add: compose_activity_url_def)

lemma process_activity_flag_sinks:
  assumes on: "process_activity w (st\<lparr>args_location := True\<rparr>) activity row = Inr st_on"
    and off: "process_activity w (st\<lparr>args_location := False\<rparr>) activity row = Inr st_off"
  shows "excel st_on = excel st_off \<and> sttr_url_per_activity st_on = sttr_url_per_activity st_off
       \<and> stdout st_on = stdout st_off \<and> request_count st_on = request_count st_off"
proof -
  obtain name u1 uri u2 g r u3 where a: "activity = (name, u1, uri, u2, g, r, u3)"
    by (cases activity)
  from on a obtain j1 s1 where g1: "get_activity_data w (st\<lparr>args_location := True\<rparr>) uri = Inr (j1, s1)"
    and r1: "(if truthy j1 then archive_activity_data w s1 row name uri g r j1 else Inr s1) = Inr st_on"
    by (auto simp add: bind_err_eq_Inr)
  from off a obtain j0 s0 where g0: "get_activity_data w (st\<lparr>args_location := False\<rparr>) uri = Inr (j0, s0)"
    and r0: "(if truthy j0 then archive_activity_data w s0 row name uri g r j0 else Inr s0) = Inr st_off"
    by (auto simp add: bind_err_eq_Inr)
  from get_activity_data_net [OF g1] obtain resp
    where n1: "net w (request_count (st\<lparr>args_location := True\<rparr>))
                 (compose_activity_url (st\<lparr>args_location := True\<rparr>) uri) = Inr resp"
    by blast
  then have n0: "net w (request_count (st\<lparr>args_location := False\<rparr>))
                 (compose_activity_url (st\<lparr>args_location := False\<rparr>) uri) = Inr resp"
    by (simp add: compose_activity_url_flag)
  have js: "j1 = j0 \<and> s1 = location_side True (werkingsgebied_per_activity s1) (files s1) s0"
  proof (cases "ok resp")
    case True
    from get_activity_data_ok [OF g0 n0 True]
    have b0: "json_body resp = Some j0"
      and "s0 = st\<lparr>args_location := False, request_count := Suc (request_count st)\<rparr>"
      by (simp_all add: update_werkingsgebied_disabled)
    moreover from get_activity_data_ok [OF g1 n1 True]
    have b1: "json_body resp = Some j1"
      and u: "update_werkingsgebied_per_activity
              (st\<lparr>args_location := True, request_count := Suc (request_count st)\<rparr>) j1 = Inr s1"
      by simp_all
    from update_werkingsgebied_location_side [OF u]
    have "s1 = location_side True (werkingsgebied_per_activity s1) (files s1)
                 (st\<lparr>args_location := True, request_count := Suc (request_count st)\<rparr>)"
      by simp
    ultimately show ?thesis using b1 by (simp add: location_side_def)
  next
    case False
    from get_activity_data_failed [OF g0 n0 False] get_activity_data_failed [OF g1 n1 False]
    show ?thesis by (simp add: location_side_def print_def)
  qed
  then have j: "j1 = j0" and s: "s1 = location_side True (werkingsgebied_per_activity s1) (files s1) s0"
    by simp_all
  show ?thesis
  proof (cases "truthy j0")
    case False
    with r0 r1 j have "st_on = s1" "st_off = s0" by simp_all
    with location_side_sinks [OF s] show ?thesis by simp
  next
    case True
    with r0 r1 j have a1: "archive_activity_data w s1 row name uri g r j0 = Inr st_on"
      and a0: "archive_activity_data w s0 row name uri g r j0 = Inr st_off"
      by simp_all
    from a1 s have "archive_activity_data w (location_side True (werkingsgebied_per_activity s1) (files s1) s0)
        row name uri g r j0 = Inr st_on"
      by simp
    with a0 have "st_on = location_side True (werkingsgebied_per_activity s1) (files s1) st_off"
      by (simp add: archive_activity_data_flag)
    then show ?thesis by (rule location_side_sinks)
  qed
qed

lemma located_activity_off:
  "process_activity (example_world (net_activity located_activity))
       (example_rtr\<lparr>args_location := False\<rparr>) example_activity 2
     = Inr (example_rtr\<lparr>request_count := 1,
              excel := [(2, [JStr ''n'', JStr ''u'', JStr ''g'', JStr ''r'', JStr [],
                             JStr [], JStr [], JStr [], JStr []])]\<rparr>)"
  by code_simp

lemma located_activity_on:
  "process_activity (example_world (net_activity located_activity))
       (example_rtr\<lparr>args_location := True\<rparr>) example_activity 2
     = Inr (example_rtr\<lparr>args_location := True,
              werkingsgebied_per_activity := [(JStr ''Kappen'', [''Polder X''])],
              request_count := 1,
              files := [(''/srv/rtr/log/werkingsgebieden_01-01-2024.txt'',
                         ''Kappen'' @ [CHR 0x0A, CHR 0x09] @ ''Polder X'' @ [CHR 0x0A, CHR 0x0A])],
              excel := [(2, [JStr ''n'', JStr ''u'', JStr ''g'', JStr ''r'', JStr [],
                             JStr [], JStr [], JStr [], JStr []])]\<rparr>)"
  by code_simp

lemma example_rtr_off: "example_rtr\<lparr>args_location := False\<rparr> = example_rtr"
  by (simp add: example_rtr_def)

text \<open>
  C9. With the location flag off, \<^verbatim>\<open>update_werkingsgebied_per_activity\<close> returns the
  state as it is, and the processing of an activity leaves the location map and the
  files written unchanged. The rest of the processing does not read the flag, the map or
  the files: \<^verbatim>\<open>archive_activity_data\<close> commutes with any change of them, and when an
  activity is processed with the flag on and with the flag off, the spreadsheet rows, the
  archive index, the printed lines and the number of requests are the same.
\<close>

theorem location_flag_disabled:
  "(\<not> args_location st \<longrightarrow> update_werkingsgebied_per_activity st json_data = Inr st)
   \<and> (\<forall>st'. \<not> args_location st \<and> process_activity w st activity row = Inr st' \<longrightarrow>
         werkingsgebied_per_activity st' = werkingsgebied_per_activity st \<and> files st' = files st)
   \<and> archive_activity_data w (location_side b wg fs st) row name uri g r data
       = map_sum id (location_side b wg fs) (archive_activity_data w st row name uri g r data)
   \<and> (\<forall>st_on st_off.
         process_activity w (st\<lparr>args_location := True\<rparr>) activity row = Inr st_on
         \<and> process_activity w (st\<lparr>args_location := False\<rparr>) activity row = Inr st_off \<longrightarrow>
         excel st_on = excel st_off \<and> sttr_url_per_activity st_on = sttr_url_per_activity st_off
         \<and> stdout st_on = stdout st_off \<and> request_count st_on = request_count st_off)"
  using update_werkingsgebied_disabled [of st json_data]
    process_activity_disabled [of st w activity row]
    archive_activity_data_flag [of w b wg fs st row name uri g r data]
    process_activity_flag_sinks [of w st activity row]
  by blast

theorem location_flag_disabled_witness:
  "\<not> args_location example_rtr
   \<and> update_werkingsgebied_per_activity example_rtr located_activity = Inr example_rtr
   \<and> process_activity (example_world (net_activity located_activity)) example_rtr example_activity 2
       = Inr (example_rtr\<lparr>request_count := 1,
              excel := [(2, [JStr ''n'', JStr ''u'', JStr ''g'', JStr ''r'', JStr [],
                             JStr [], JStr [], JStr [], JStr []])]\<rparr>)
   \<and> werkingsgebied_per_activity (example_rtr\<lparr>request_count := 1,
              excel := [(2, [JStr ''n'', JStr ''u'', JStr ''g'', JStr ''r'', JStr [],
                             JStr [], JStr [], JStr [], JStr []])]\<rparr>)
       = werkingsgebied_per_activity example_rtr
   \<and> files (example_rtr\<lparr>request_count := 1,
              excel := [(2, [JStr ''n'', JStr ''u'', JStr ''g'', JStr ''r'', JStr [],
                             JStr [], JStr [], JStr [], JStr []])]\<rparr>)
       = files example_rtr
   \<and> process_activity (example_world (net_activity located_activity))
       (example_rtr\<lparr>args_location := True\<rparr>) example_activity 2
     = Inr (example_rtr\<lparr>args_location := True,
              werkingsgebied_per_activity := [(JStr ''Kappen'', [''Polder X''])],
              request_count := 1,
              files := [(''/srv/rtr/log/werkingsgebieden_01-01-2024.txt'',
                         ''Kappen'' @ [CHR 0x0A, CHR 0x09] @ ''Polder X'' @ [CHR 0x0A, CHR 0x0A])],
              excel := [(2, [JStr ''n'', JStr ''u'', JStr ''g'', JStr ''r'', JStr [],
                             JStr [], JStr [], JStr [], JStr []])]\<rparr>)
   \<and> excel (example_rtr\<lparr>args_location := True,
              werkingsgebied_per_activity := [(JStr ''Kappen'', [''Polder X''])],
              request_count := 1,
              files := [(''/srv/rtr/log/werkingsgebieden_01-01-2024.txt'',
                         ''Kappen'' @ [CHR 0x0A, CHR 0x09] @ ''Polder X'' @ [CHR 0x0A, CHR 0x0A])],
              excel := [(2, [JStr ''n'', JStr ''u'', JStr ''g'', JStr ''r'', JStr [],
                             JStr [], JStr [], JStr [], JStr []])]\<rparr>)
     = excel (example_rtr\<lparr>request_count := 1,
              excel := [(2, [JStr ''n'', JStr ''u'', JStr ''g'', JStr ''r'', JStr [],
                             JStr [], JStr [], JStr [], JStr []])]\<rparr>)"
proof -
  note t = location_flag_disabled [of example_rtr located_activity
      "example_world (net_activity located_activity)" example_activity 2]
  have off: "\<not> args_location example_rtr"
    by (simp add: example_rtr_def)
  have run: "process_activity (example_world (net_activity located_activity)) example_rtr example_activity 2
       = Inr (example_rtr\<lparr>request_count := 1,
              excel := [(2, [JStr ''n'', JStr ''u'', JStr ''g'', JStr ''r'', JStr [],
                             JStr [], JStr [], JStr [], JStr []])]\<rparr>)"
    using located_activity_off by (simp only: example_rtr_off)
  from t [THEN conjunct1, THEN mp, OF off]
  have u: "update_werkingsgebied_per_activity example_rtr located_activity = Inr example_rtr" .
  from t [THEN conjunct2, THEN conjunct1, THEN spec, THEN mp, OF conjI, OF off run]
  have frame: "werkingsgebied_per_activity (example_rtr\<lparr>request_count := 1,
              excel := [(2, [JStr ''n'', JStr ''u'', JStr ''g'', JStr ''r'', JStr [],
                             JStr [], JStr [], JStr [], JStr []])]\<rparr>)
       = werkingsgebied_per_activity example_rtr
     \<and> files (example_rtr\<lparr>request_count := 1,
              excel := [(2, [JStr ''n'', JStr ''u'', JStr ''g'', JStr ''r'', JStr [],
                             JStr [], JStr [], JStr [], JStr []])]\<rparr>)
       = files example_rtr" .
  from t [THEN conjunct2, THEN conjunct2, THEN conjunct2, THEN spec, THEN spec, THEN mp, OF conjI,
      OF located_activity_on located_activity_off]
  have same: "excel (example_rtr\<lparr>args_location := True,
              werkingsgebied_per_activity := [(JStr ''Kappen'', [''Polder X''])],
              request_count := 1,
              files := [(''/srv/rtr/log/werkingsgebieden_01-01-2024.txt'',
                         ''Kappen'' @ [CHR 0x0A, CHR 0x09] @ ''Polder X'' @ [CHR 0x0A, CHR 0x0A])],
              excel := [(2, [JStr ''n'', JStr ''u'', JStr ''g'', JStr ''r'', JStr [],
                             JStr [], JStr [], JStr [], JStr []])]\<rparr>)
     = excel (example_rtr\<lparr>request_count := 1,
              excel := [(2, [JStr ''n'', JStr ''u'', JStr ''g'', JStr ''r'', JStr [],
                             JStr [], JStr [], JStr [], JStr []])]\<rparr>)"
    by (elim conjE)
  from off u run frame located_activity_on same show ?thesis
    by (intro conjI) (elim conjE, assumption)+
qed

end
